theory Spec2Isabelle
  imports Complex_Main
begin

section \<open>Geometry values\<close>

text \<open>
  \<^verbatim>\<open>qreal\<close> is modelled by \<^typ>\<open>real\<close>: comparisons and sums are exact. \<^verbatim>\<open>QPointF\<close> is a
  pair, \<^verbatim>\<open>QRectF\<close> is (x, y, width, height), as Qt stores it.
\<close>

type_synonym qpointf = "real \<times> real"

datatype qrectf = QRectF (rectf_x: real) (rectf_y: real) (rectf_width: real) (rectf_height: real)

definition rectf_isEmpty :: "qrectf \<Rightarrow> bool" where
  "rectf_isEmpty r = (rectf_width r \<le> 0 \<or> rectf_height r \<le> 0)"

definition rectf_isNull :: "qrectf \<Rightarrow> bool" where
  "rectf_isNull r = (rectf_width r = 0 \<and> rectf_height r = 0)"

definition rectf_center :: "qrectf \<Rightarrow> qpointf" where
  "rectf_center r = (rectf_x r + rectf_width r / 2, rectf_y r + rectf_height r / 2)"

text \<open>\<^verbatim>\<open>QLineF(p1, p2).length()\<close>.\<close>

definition lineLength :: "qpointf \<Rightarrow> qpointf \<Rightarrow> real" where
  "lineLength p1 p2 =
     (let dx = fst p2 - fst p1; dy = snd p2 - snd p1 in sqrt (dx * dx + dy * dy))"

text \<open>\<^verbatim>\<open>std::numeric_limits<qreal>::max()\<close>, the largest finite double.\<close>

definition DBL_MAX :: real where
  "DBL_MAX = (2 - 1 / 2 ^ 52) * 2 ^ 1023"

text \<open>\<^verbatim>\<open>qFuzzyCompare(double, double)\<close> of QtGlobal.\<close>

definition qFuzzyCompare :: "real \<Rightarrow> real \<Rightarrow> bool" where
  "qFuzzyCompare p1 p2 = (\<bar>p1 - p2\<bar> * 1000000000000 \<le> min \<bar>p1\<bar> \<bar>p2\<bar>)"

section \<open>Scene-graph items\<close>

text \<open>
  A \<^verbatim>\<open>QQuickItem\<close> as \<^verbatim>\<open>pick.cpp\<close> sees it: one field for each accessor the file calls.
  \<open>addr\<close> is the pointer value (distinct items of one scene have distinct addresses);
  \<open>classChain\<close> is the class name of the meta object followed by the names of its
  super classes (empty when there is no meta object); \<open>childItems\<close> never holds a null
  pointer, so the guard \<^verbatim>\<open>if (!child) continue\<close> has no branch here.
\<close>

datatype item = Item
  (addr: nat)
  (isVisible: bool)
  (isEnabled: bool)
  (opacity: real)
  (z: real)
  (classChain: "string list")
  (mapFromScene: "qpointf \<Rightarrow> qpointf")
  (mapToScene: "qpointf \<Rightarrow> qpointf")
  (contains: "qpointf \<Rightarrow> bool")
  (boundingRect: qrectf)
  (mapRectToScene: "qrectf \<Rightarrow> qrectf")
  (width: real)
  (height: real)
  (childItems: "item list")

text \<open>
  A \<^verbatim>\<open>QQuickItem *\<close> that is not null: the item together with its \<^verbatim>\<open>parentItem()\<close> chain,
  nearest parent first. A nullable pointer is an \<open>option\<close> of it.
\<close>

type_synonym itemptr = "item \<times> item list"

subsection \<open>isPickableItem\<close>

text \<open>
  Returns \<open>None\<close> for \<^verbatim>\<open>false\<close> and \<open>Some local\<close> for \<^verbatim>\<open>true\<close>, \<open>local\<close> being the value
  written through \<^verbatim>\<open>localPoint\<close>.
\<close>

definition isPickableItem :: "item option \<Rightarrow> qpointf \<Rightarrow> qpointf option" where
  "isPickableItem item scenePos =
     (case item of
        None \<Rightarrow> None
      | Some it \<Rightarrow>
          if \<not> isVisible it \<or> \<not> isEnabled it \<or> opacity it \<le> 0 then None
          else (let local = mapFromScene it scenePos in
                if \<not> contains it local then None else Some local))"

subsection \<open>isButtonLike\<close>

definition kButtonTypes :: "string list" where
  "kButtonTypes =
     [''QQuickAbstractButton'', ''QQuickButton'', ''QQuickToolButton'', ''QQuickCheckBox'',
      ''QQuickRadioButton'', ''QQuickSwitch'', ''QQuickMenuItem'']"

definition toLower :: "char \<Rightarrow> char" where
  "toLower c =
     (let n = (of_char c :: nat) in if 65 \<le> n \<and> n \<le> 90 then char_of (n + 32) else c)"

fun startsWith :: "string \<Rightarrow> string \<Rightarrow> bool" where
  "startsWith s [] = True"
| "startsWith [] (c # cs) = False"
| "startsWith (a # as) (c # cs) = (a = c \<and> startsWith as cs)"

fun containsStr :: "string \<Rightarrow> string \<Rightarrow> bool" where
  "containsStr [] n = startsWith [] n"
| "containsStr (a # as) n = (startsWith (a # as) n \<or> containsStr as n)"

text \<open>\<^verbatim>\<open>QString::contains(needle, Qt::CaseInsensitive)\<close>.\<close>

definition containsCaseInsensitive :: "string \<Rightarrow> string \<Rightarrow> bool" where
  "containsCaseInsensitive s needle = containsStr (map toLower s) (map toLower needle)"

text \<open>\<^verbatim>\<open>QObject::inherits\<close>: the named class is the object's class or one of its bases.\<close>

definition inherits :: "item \<Rightarrow> string \<Rightarrow> bool" where
  "inherits it t = (t \<in> set (classChain it))"

fun inheritsAny :: "item \<Rightarrow> string list \<Rightarrow> bool" where
  "inheritsAny it [] = False"
| "inheritsAny it (t # ts) = (if inherits it t then True else inheritsAny it ts)"

definition isButtonLike :: "item option \<Rightarrow> bool" where
  "isButtonLike item =
     (case item of
        None \<Rightarrow> False
      | Some it \<Rightarrow>
          if inheritsAny it kButtonTypes then True
          else (case classChain it of
                  [] \<Rightarrow> False
                | className # _ \<Rightarrow> containsCaseInsensitive className ''Button''))"

subsection \<open>deepestItemUnderPoint\<close>

text \<open>
  \<^verbatim>\<open>QQuickItem::childAt(x, y)\<close>, from Qt: the children are tried last to first, and the
  first one that is visible and contains the point, mapped into its own coordinates, is
  returned.
\<close>

definition childAt :: "item \<Rightarrow> qpointf \<Rightarrow> item option" where
  "childAt it local =
     find (\<lambda>child. isVisible child \<and> contains child (mapFromScene child (mapToScene it local)))
       (rev (childItems it))"

lemma size_childItems: "c \<in> set (childItems it) \<Longrightarrow> size c < size it"
  by (cases it) (auto simp: less_Suc_eq_le dest: size_list_estimation')

lemma find_Some_in_set: "find P xs = Some x \<Longrightarrow> x \<in> set xs \<and> P x"
  by (induction xs) (auto split: if_splits)

lemma childAt_in_childItems: "childAt it local = Some next \<Longrightarrow> next \<in> set (childItems it)"
  by (auto simp: childAt_def dest: find_Some_in_set)

text \<open>The \<^verbatim>\<open>for (;;)\<close> loop of \<^verbatim>\<open>deepestItemUnderPoint\<close>, from \<open>current\<close> on.\<close>

function descend :: "item \<Rightarrow> item list \<Rightarrow> qpointf \<Rightarrow> itemptr" where
  "descend current anc scenePos =
     (let local = mapFromScene current scenePos in
      case childAt current local of
        None \<Rightarrow> (current, anc)
      | Some next \<Rightarrow>
          if \<not> isVisible next \<or> \<not> isEnabled next \<or> opacity next \<le> 0 then (current, anc)
          else descend next (current # anc) scenePos)"
  by pat_completeness auto
termination
  by (relation "measure (\<lambda>(current, anc, scenePos). size current)")
     (auto dest!: childAt_in_childItems size_childItems)

definition deepestItemUnderPoint :: "itemptr option \<Rightarrow> qpointf \<Rightarrow> itemptr option" where
  "deepestItemUnderPoint rootItem scenePos =
     (case rootItem of
        None \<Rightarrow> None
      | Some (r, anc) \<Rightarrow>
          (let rootLocal = mapFromScene r scenePos in
           if \<not> isVisible r \<or> \<not> isEnabled r \<or> opacity r \<le> 0 \<or> \<not> contains r rootLocal then None
           else Some (descend r anc scenePos)))"

subsection \<open>promoteToButtonAncestor\<close>

text \<open>The \<^verbatim>\<open>for\<close> loop: the first button-like item among \<open>it\<close>, its parent, and so on.\<close>

fun firstButtonUp :: "item \<Rightarrow> item list \<Rightarrow> itemptr option" where
  "firstButtonUp it [] = (if isButtonLike (Some it) then Some (it, []) else None)"
| "firstButtonUp it (p # ps) =
     (if isButtonLike (Some it) then Some (it, p # ps) else firstButtonUp p ps)"

definition promoteToButtonAncestor :: "itemptr option \<Rightarrow> itemptr option" where
  "promoteToButtonAncestor leaf =
     (case leaf of
        None \<Rightarrow> None
      | Some (it, anc) \<Rightarrow>
          (case firstButtonUp it anc of Some b \<Rightarrow> Some b | None \<Rightarrow> leaf))"

section \<open>findQuickItemAt\<close>

subsection \<open>Paint order of the children\<close>

text \<open>
  The comparator handed to \<^verbatim>\<open>std::sort\<close>: by \<open>z\<close>, and by pointer value where the two
  \<open>z\<close> values compare equal under \<^verbatim>\<open>qFuzzyCompare\<close>.
\<close>

definition zLess :: "item \<Rightarrow> item \<Rightarrow> bool" where
  "zLess left right =
     (if qFuzzyCompare (z left) (z right) then addr left < addr right
      else z left < z right)"

text \<open>
  \<^verbatim>\<open>std::sort\<close> is modelled by insertion sort under the comparator. Where the comparator
  is a strict total order on the children (distinct addresses, \<open>z\<close> values exactly equal or
  clearly apart) every correct sort returns this list.
\<close>

fun insertChild :: "item \<Rightarrow> item list \<Rightarrow> item list" where
  "insertChild x [] = [x]"
| "insertChild x (y # ys) = (if zLess x y then x # y # ys else y # insertChild x ys)"

definition sortChildren :: "item list \<Rightarrow> item list" where
  "sortChildren xs = foldr insertChild xs []"

subsection \<open>Ranking of the collected candidates\<close>

definition kDistEps :: real where "kDistEps = 0.75"
definition kAreaEps :: real where "kAreaEps = 1.0"
definition kButtonBoostPx :: real where "kButtonBoostPx = 4.0"

text \<open>The three loop variables \<^verbatim>\<open>bestItem\<close>, \<^verbatim>\<open>bestDist\<close>, \<^verbatim>\<open>bestArea\<close>.\<close>

record best =
  bestItem :: "itemptr option"
  bestDist :: real
  bestArea :: real

definition initBest :: "bool \<Rightarrow> best" where
  "initBest preferLargestArea =
     \<lparr>bestItem = None, bestDist = DBL_MAX,
      bestArea = (if preferLargestArea then - DBL_MAX else DBL_MAX)\<rparr>"

text \<open>
  The flag \<^verbatim>\<open>better\<close> of one iteration, given the candidate's distance and area. The
  three stages are the three places where the source assigns it; the second branch of
  the first stage assigns \<^verbatim>\<open>false\<close> to a flag that is still \<^verbatim>\<open>false\<close>.
\<close>

definition isBetter :: "bool \<Rightarrow> bool \<Rightarrow> best \<Rightarrow> bool \<Rightarrow> bool \<Rightarrow> real \<Rightarrow> real \<Rightarrow> bool" where
  "isBetter preferButtons preferLargestArea b candIsBtn bestIsBtn distance area =
     (let better = False;
          better =
            (if preferButtons \<and> bestItem b \<noteq> None then
               (if candIsBtn \<and> \<not> bestIsBtn then
                  (if distance \<le> bestDist b + kButtonBoostPx then True else better)
                else if \<not> candIsBtn \<and> bestIsBtn then
                  (if distance + kButtonBoostPx \<ge> bestDist b then False else better)
                else better)
             else better);
          better =
            (if \<not> better then
               (if distance + kDistEps < bestDist b then True
                else if \<bar>distance - bestDist b\<bar> \<le> kDistEps then
                  (let better =
                         (if preferLargestArea then
                            (if area > bestArea b + kAreaEps then True else better)
                          else
                            (if area + kAreaEps < bestArea b then True else better))
                   in if \<not> better \<and> preferButtons then
                        (if candIsBtn \<and> \<not> bestIsBtn then True else better)
                      else better)
                else better)
             else better)
      in better)"

text \<open>One iteration of \<^verbatim>\<open>for (QQuickItem *candidate : found)\<close>.\<close>

definition rankStep :: "bool \<Rightarrow> bool \<Rightarrow> qpointf \<Rightarrow> best \<Rightarrow> itemptr \<Rightarrow> best" where
  "rankStep preferButtons preferLargestArea scenePos b candidate =
     (let rect = mapRectToScene (fst candidate) (boundingRect (fst candidate)) in
      if rectf_isEmpty rect then b
      else
        (let area = rectf_width rect * rectf_height rect;
             distance = lineLength (rectf_center rect) scenePos;
             candIsBtn = (preferButtons \<and> isButtonLike (Some (fst candidate)));
             bestIsBtn = (preferButtons \<and> bestItem b \<noteq> None
                          \<and> isButtonLike (map_option fst (bestItem b)))
         in if isBetter preferButtons preferLargestArea b candIsBtn bestIsBtn distance area
            then \<lparr>bestItem = Some candidate, bestDist = distance, bestArea = area\<rparr>
            else b))"

definition rankCandidates :: "bool \<Rightarrow> bool \<Rightarrow> qpointf \<Rightarrow> itemptr list \<Rightarrow> best" where
  "rankCandidates preferButtons preferLargestArea scenePos found =
     foldl (rankStep preferButtons preferLargestArea scenePos) (initBest preferLargestArea) found"

subsection \<open>The refinement block\<close>

text \<open>
  What \<^verbatim>\<open>bestItem\<close> is after the block between the two \<^verbatim>\<open>refinement block\<close> comments.
  \<^verbatim>\<open>button != bestItem\<close> compares pointers, here addresses.
\<close>

definition refineBest :: "bool \<Rightarrow> qpointf \<Rightarrow> itemptr \<Rightarrow> itemptr" where
  "refineBest preferButtons scenePos bestIt =
     (if preferButtons then
        (case deepestItemUnderPoint (Some bestIt) scenePos of
           None \<Rightarrow> bestIt
         | Some leaf \<Rightarrow>
             (case promoteToButtonAncestor (Some leaf) of
                None \<Rightarrow> bestIt
              | Some button \<Rightarrow> if addr (fst button) \<noteq> addr (fst bestIt) then button else bestIt))
      else bestIt)"

subsection \<open>The recursion\<close>

text \<open>The non-null results of the recursive calls, in the order they are pushed.\<close>

fun collectHits :: "'a option list \<Rightarrow> 'a list" where
  "collectHits [] = []"
| "collectHits (None # hs) = collectHits hs"
| "collectHits (Some h # hs) = h # collectHits hs"

text \<open>\<^verbatim>\<open>env && strcmp(env, "1") == 0\<close>, \<open>env\<close> being the result of \<^verbatim>\<open>getenv\<close>.\<close>

definition preferLargestAreaOf :: "string option \<Rightarrow> bool" where
  "preferLargestAreaOf env = (case env of None \<Rightarrow> False | Some v \<Rightarrow> v = ''1'')"

text \<open>
  \<open>env\<close> is the value of \<^verbatim>\<open>FUNQ_MODE_PICK_LARGEST\<close> in the process environment and \<open>anc\<close>
  the \<^verbatim>\<open>parentItem()\<close> chain of \<open>item\<close>. The result is the returned pointer.
\<close>

lemma set_insertChild: "set (insertChild x ys) = insert x (set ys)"
  by (induction ys) auto

lemma set_sortChildren: "set (sortChildren xs) = set xs"
  by (induction xs) (auto simp: sortChildren_def set_insertChild)

function findQuickItemAt ::
    "string option \<Rightarrow> item list \<Rightarrow> item option \<Rightarrow> qpointf \<Rightarrow> bool \<Rightarrow> itemptr option" where
  "findQuickItemAt env anc None scenePos preferButtons = None"
| "findQuickItemAt env anc (Some item) scenePos preferButtons =
     (let children = sortChildren (childItems item);
          found = collectHits
                    (map (\<lambda>child. findQuickItemAt env (item # anc) (Some child) scenePos preferButtons)
                       (rev children));
          preferLargestArea = preferLargestAreaOf env;
          chosen =
            (if found \<noteq> [] then
               (case bestItem (rankCandidates preferButtons preferLargestArea scenePos found) of
                  None \<Rightarrow> None
                | Some bestIt \<Rightarrow> Some (refineBest preferButtons scenePos bestIt))
             else None)
      in case chosen of
           Some result \<Rightarrow> Some result
         | None \<Rightarrow>
             (case isPickableItem (Some item) scenePos of
                None \<Rightarrow> None
              | Some localPoint \<Rightarrow> Some (item, anc)))"
  by pat_completeness auto
termination
  by (relation "measure (\<lambda>(env, anc, item, scenePos, preferButtons).
                   case item of None \<Rightarrow> 0 | Some it \<Rightarrow> size it)")
     (auto simp: set_sortChildren dest: size_childItems)

section \<open>Integer geometry\<close>

text \<open>
  \<^verbatim>\<open>QPoint\<close>, \<^verbatim>\<open>QSize\<close> and \<^verbatim>\<open>QRect\<close> hold C \<^verbatim>\<open>int\<close>s, modelled by \<^typ>\<open>int\<close>. A
  \<^verbatim>\<open>QRect\<close> stores its two corners, and its width is computed from them.
\<close>

type_synonym qpoint = "int \<times> int"

datatype qsize = QSize (size_width: int) (size_height: int)

datatype qrect = QRectCorners (rect_x1: int) (rect_y1: int) (rect_x2: int) (rect_y2: int)

text \<open>\<^verbatim>\<open>QRect(const QPoint &topLeft, const QSize &size)\<close>.\<close>

definition QRect :: "qpoint \<Rightarrow> qsize \<Rightarrow> qrect" where
  "QRect topLeft sz =
     QRectCorners (fst topLeft) (snd topLeft)
       (fst topLeft + size_width sz - 1) (snd topLeft + size_height sz - 1)"

definition rect_width :: "qrect \<Rightarrow> int" where
  "rect_width r = rect_x2 r - rect_x1 r + 1"

definition rect_height :: "qrect \<Rightarrow> int" where
  "rect_height r = rect_y2 r - rect_y1 r + 1"

definition rect_topLeft :: "qrect \<Rightarrow> qpoint" where
  "rect_topLeft r = (rect_x1 r, rect_y1 r)"

definition rect_size :: "qrect \<Rightarrow> qsize" where
  "rect_size r = QSize (rect_width r) (rect_height r)"

text \<open>\<^verbatim>\<open>QRect::contains(const QPoint &, bool proper = false)\<close>.\<close>

definition rect_contains :: "qrect \<Rightarrow> qpoint \<Rightarrow> bool" where
  "rect_contains r p =
     (let (l, r') = (if rect_x2 r < rect_x1 r - 1 then (rect_x2 r, rect_x1 r)
                     else (rect_x1 r, rect_x2 r));
          (t, b) = (if rect_y2 r < rect_y1 r - 1 then (rect_y2 r, rect_y1 r)
                    else (rect_y1 r, rect_y2 r))
      in \<not> (fst p < l \<or> fst p > r') \<and> \<not> (snd p < t \<or> snd p > b))"

text \<open>The range of a C \<^verbatim>\<open>int\<close> of 32 bits, and its addition, which wraps around.\<close>

definition INT_MIN :: int where
  "INT_MIN = - 2147483648"

definition INT_MAX :: int where
  "INT_MAX = 2147483647"

definition wrapInt :: "int \<Rightarrow> int" where
  "wrapInt i = (i + 2147483648) mod 4294967296 - 2147483648"

text \<open>
  The conversion \<^verbatim>\<open>static_cast<int>(double)\<close> truncates towards zero. For a value outside
  the range of \<^verbatim>\<open>int\<close> the conversion is undefined in C++; the value taken here is the
  one the conversion instruction of x86 gives, \<^verbatim>\<open>INT_MIN\<close>.
\<close>

definition truncInt :: "real \<Rightarrow> int" where
  "truncInt d =
     (let t = (if 0 \<le> d then \<lfloor>d\<rfloor> else \<lceil>d\<rceil>) in
      if INT_MIN \<le> t \<and> t \<le> INT_MAX then t else INT_MIN)"

text \<open>\<^verbatim>\<open>qRound(double)\<close> of QtGlobal (Qt 5).\<close>

definition qRound :: "real \<Rightarrow> int" where
  "qRound d =
     (if d \<ge> 0 then truncInt (d + 0.5)
      else wrapInt (truncInt (d - real_of_int (truncInt (d - 1)) + 0.5) + truncInt (d - 1)))"

definition qMax :: "int \<Rightarrow> int \<Rightarrow> int" where
  "qMax a b = (if a < b then b else a)"

section \<open>Widgets, windows and the application\<close>

text \<open>A \<^verbatim>\<open>QObject *\<close> that is not null: what kind of object it is, and its address.\<close>

datatype qobject = Widget nat | QuickItem nat | Window nat | Object nat

record widget =
  widget_addr :: nat
  widget_rect :: qrect
  widget_mapToGlobal :: "qpoint \<Rightarrow> qpoint"
  widget_mapFromGlobal :: "qpoint \<Rightarrow> qpoint"

text \<open>
  \<open>window_quick\<close> is \<open>None\<close> for a window that is not a \<^verbatim>\<open>QQuickWindow\<close>, and otherwise
  holds its \<^verbatim>\<open>contentItem()\<close>, a nullable pointer.
\<close>

record window =
  window_addr :: nat
  window_isVisible :: bool
  window_mapToGlobal :: "qpoint \<Rightarrow> qpoint"
  window_mapFromGlobal :: "qpoint \<Rightarrow> qpoint"
  window_size :: qsize
  window_quick :: "item option option"

text \<open>
  What \<^verbatim>\<open>pick.cpp\<close> reads from the running application: whether
  \<^verbatim>\<open>QCoreApplication::instance()\<close> is a \<^verbatim>\<open>QApplication\<close>, \<^verbatim>\<open>QApplication::widgetAt\<close>,
  whether \<^verbatim>\<open>QGuiApplication::instance()\<close> is set, the top-level windows (none of them a
  null pointer) and the environment variable \<^verbatim>\<open>FUNQ_MODE_PICK_LARGEST\<close>.
\<close>

record app =
  qApplicationInstance :: bool
  widgetAt :: "qpoint \<Rightarrow> widget option"
  guiApplicationInstance :: bool
  topLevelWindows :: "window list"
  FUNQ_MODE_PICK_LARGEST :: "string option"

section \<open>The highlight overlay\<close>

text \<open>
  The two implementations of \<^verbatim>\<open>HighlightOverlay\<close>, each with the visibility and geometry
  of its rubber band or window.
\<close>

datatype overlay =
    WidgetHighlightOverlay (overlay_isVisible: bool) (overlay_geometry: qrect)
  | WindowHighlightOverlay (overlay_isVisible: bool) (overlay_geometry: qrect)

fun showRect :: "overlay \<Rightarrow> qrect \<Rightarrow> overlay" where
  "showRect (WidgetHighlightOverlay visible geometry) globalRect =
     (if \<not> visible then WidgetHighlightOverlay True globalRect
      else WidgetHighlightOverlay visible globalRect)"
| "showRect (WindowHighlightOverlay visible geometry) globalRect =
     (if \<not> visible then WindowHighlightOverlay True globalRect
      else WindowHighlightOverlay visible globalRect)"

fun hide :: "overlay \<Rightarrow> overlay" where
  "hide (WidgetHighlightOverlay visible geometry) =
     (if visible then WidgetHighlightOverlay False geometry
      else WidgetHighlightOverlay visible geometry)"
| "hide (WindowHighlightOverlay visible geometry) =
     (if visible then WindowHighlightOverlay False geometry
      else WindowHighlightOverlay visible geometry)"

section \<open>Pick\<close>

text \<open>
  The members of \<^verbatim>\<open>Pick\<close>. \<open>m_handler\<close> tells whether the handler pointer is set; the
  calls made to the handler are an output of \<open>handleEvent\<close>.
\<close>

record pick =
  m_handler :: bool
  m_highlightOverlay :: "overlay option"
  m_hasWidgetStack :: bool
  m_highlightTarget :: "qobject option"
  m_highlightPos :: qpoint

text \<open>
  The constructor \<^verbatim>\<open>Pick::Pick\<close>. \<open>handler\<close> tells whether the handler passed is not null,
  \<open>geometry\<close> is the geometry a new rubber band or window has; neither is shown yet.
\<close>

definition newPick :: "bool \<Rightarrow> app \<Rightarrow> qrect \<Rightarrow> pick" where
  "newPick handler a geometry =
     (let s = \<lparr>m_handler = handler, m_highlightOverlay = None, m_hasWidgetStack = False,
               m_highlightTarget = None, m_highlightPos = (0, 0)\<rparr>;
          s = (if qApplicationInstance a
               then s\<lparr>m_hasWidgetStack := True,
                      m_highlightOverlay := Some (WidgetHighlightOverlay False geometry)\<rparr>
               else s);
          s = (if m_highlightOverlay s = None \<and> guiApplicationInstance a
               then s\<lparr>m_highlightOverlay := Some (WindowHighlightOverlay False geometry)\<rparr>
               else s)
      in s)"

definition showHighlight :: "pick \<Rightarrow> qrect \<Rightarrow> pick" where
  "showHighlight s globalRect =
     (case m_highlightOverlay s of
        None \<Rightarrow> s
      | Some ov \<Rightarrow> s\<lparr>m_highlightOverlay := Some (showRect ov globalRect)\<rparr>)"

definition hideHighlight :: "pick \<Rightarrow> pick" where
  "hideHighlight s =
     (let s = (case m_highlightOverlay s of
                 None \<Rightarrow> s
               | Some ov \<Rightarrow> s\<lparr>m_highlightOverlay := Some (hide ov)\<rparr>)
      in s\<lparr>m_highlightTarget := None\<rparr>)"

subsection \<open>computeHighlightTarget\<close>

text \<open>
  The result is the returned flag and the three output parameters, which keep the
  caller's values \<open>outRect\<close>, \<open>target\<close>, \<open>localPos\<close> where the function does not assign
  them. The build has widgets, Qt 5 windows and Qt Quick.
\<close>

type_synonym candidate = "bool \<times> qrect \<times> qobject option \<times> qpoint"

text \<open>The body of the branch taken for a \<^verbatim>\<open>QQuickWindow\<close> with a content item.\<close>

definition quickItemCandidate :: "window \<Rightarrow> itemptr \<Rightarrow> qpointf \<Rightarrow> candidate" where
  "quickItemCandidate win quickItem scenePos =
     (let sceneTopLeft = mapToScene (fst quickItem) (0, 0);
          globalTopLeft = window_mapToGlobal win
                            (qRound (fst sceneTopLeft), qRound (snd sceneTopLeft));
          sz = QSize (qMax 1 (qRound (width (fst quickItem))))
                     (qMax 1 (qRound (height (fst quickItem))));
          localPoint = mapFromScene (fst quickItem) scenePos
      in (True, QRect globalTopLeft sz, Some (QuickItem (addr (fst quickItem))),
          (truncInt (fst localPoint), truncInt (snd localPoint))))"

fun windowLoop ::
    "app \<Rightarrow> qpoint \<Rightarrow> bool \<Rightarrow> qrect \<Rightarrow> qpoint \<Rightarrow> window list \<Rightarrow> candidate" where
  "windowLoop a globalPos buttonsOnly outRect localPos [] = (False, outRect, None, localPos)"
| "windowLoop a globalPos buttonsOnly outRect localPos (win # windows) =
     (if \<not> window_isVisible win then windowLoop a globalPos buttonsOnly outRect localPos windows
      else
        (let rect = QRect (window_mapToGlobal win (0, 0)) (window_size win) in
         if \<not> rect_contains rect globalPos
         then windowLoop a globalPos buttonsOnly outRect localPos windows
         else
           (let windowCandidate =
                  (True, rect, Some (Window (window_addr win)),
                   (fst globalPos - fst (rect_topLeft rect), snd globalPos - snd (rect_topLeft rect)))
            in case window_quick win of
                 Some (Some content) \<Rightarrow>
                   (let windowPos = window_mapFromGlobal win globalPos;
                        scenePos = (real_of_int (fst windowPos), real_of_int (snd windowPos))
                    in case findQuickItemAt (FUNQ_MODE_PICK_LARGEST a) [] (Some content) scenePos
                              buttonsOnly of
                         Some quickItem \<Rightarrow>
                           if addr (fst quickItem) \<noteq> addr content
                           then quickItemCandidate win quickItem scenePos
                           else windowCandidate
                       | None \<Rightarrow> windowCandidate)
               | _ \<Rightarrow> windowCandidate)))"

definition computeHighlightTarget ::
    "app \<Rightarrow> pick \<Rightarrow> qpoint \<Rightarrow> qrect \<Rightarrow> qobject option \<Rightarrow> qpoint \<Rightarrow> bool \<Rightarrow> candidate" where
  "computeHighlightTarget a s globalPos outRect target localPos buttonsOnly =
     (case (if m_hasWidgetStack s then widgetAt a globalPos else None) of
        Some wdg \<Rightarrow>
          (let rect = widget_rect wdg;
               topLeft = widget_mapToGlobal wdg (rect_topLeft rect)
           in (True, QRect topLeft (rect_size rect), Some (Widget (widget_addr wdg)),
               widget_mapFromGlobal wdg globalPos))
      | None \<Rightarrow>
          if \<not> guiApplicationInstance a then (False, outRect, None, localPos)
          else windowLoop a globalPos buttonsOnly outRect localPos (topLevelWindows a))"

subsection \<open>handleEvent\<close>

datatype eventType = MouseMove | MouseButtonPress | MouseButtonRelease | OtherEvent

datatype modifier = ShiftModifier | ControlModifier | AltModifier | MetaModifier

text \<open>
  A \<^verbatim>\<open>QEvent\<close>; for the three mouse types it is a \<^verbatim>\<open>QMouseEvent\<close> and the last three
  fields are its \<^verbatim>\<open>modifiers()\<close>, \<^verbatim>\<open>globalPos()\<close> and \<^verbatim>\<open>pos()\<close>.
\<close>

record qevent =
  event_type :: eventType
  event_modifiers :: "modifier set"
  event_globalPos :: qpoint
  event_pos :: qpoint

text \<open>
  The result: the returned flag, the members of \<^verbatim>\<open>Pick\<close> afterwards, and the calls
  \<^verbatim>\<open>m_handler->handle(target, pos)\<close> made, in order. \<open>receiver\<close> is a nullable pointer.
\<close>

definition handleEvent ::
    "app \<Rightarrow> pick \<Rightarrow> qobject option \<Rightarrow> qevent
       \<Rightarrow> bool \<times> pick \<times> (qobject option \<times> qpoint) list" where
  "handleEvent a s receiver event =
     (if \<not> m_handler s then (False, s, [])
      else if event_type event = MouseMove \<or> event_type event = MouseButtonPress
              \<or> event_type event = MouseButtonRelease then
        (let mods = event_modifiers event;
             ctrlShift = (ShiftModifier \<in> mods \<and> ControlModifier \<in> mods);
             highlightMode = ctrlShift;
             buttonsOnly = (AltModifier \<in> mods);
             (hasCandidate, candidateRect, candidateTarget, candidatePos) =
                computeHighlightTarget a s (event_globalPos event)
                  (QRectCorners 0 0 (- 1) (- 1)) None (0, 0) buttonsOnly;
             s = (if highlightMode \<and> hasCandidate then
                    (showHighlight s candidateRect)
                      \<lparr>m_highlightTarget := candidateTarget, m_highlightPos := candidatePos\<rparr>
                  else if highlightMode then hideHighlight s
                  else hideHighlight s)
         in if event_type event = MouseButtonPress \<and> ctrlShift then
              (let target = (if highlightMode \<and> m_highlightTarget s \<noteq> None
                             then m_highlightTarget s
                             else (if hasCandidate then candidateTarget else receiver));
                   pos = (if highlightMode \<and> m_highlightTarget s \<noteq> None
                          then m_highlightPos s
                          else (if hasCandidate then candidatePos else event_pos event));
                   (target, pos) = (if target = None then (receiver, event_pos event)
                                    else (target, pos))
               in (True, s, [(target, pos)]))
            else if event_type event = MouseButtonRelease \<and> ctrlShift then (True, s, [])
            else (False, s, []))
      else (False, s, []))"

section \<open>PickFormatter: the geometry line\<close>

text \<open>
  A \<^verbatim>\<open>QVariant\<close> as the formatter reads it: one field for each query made. \<open>toDouble\<close>
  and \<open>toInt\<close> give the value and the \<^verbatim>\<open>ok\<close> flag.
\<close>

datatype qvariant = QVariant
  (isValid: bool)
  (toDouble: "real \<times> bool")
  (toInt: "int \<times> bool")
  (canConvertRect: bool)
  (toRect: qrect)
  (canConvertMap: bool)
  (toMap: "(string \<times> qvariant) list")

text \<open>
  The object handed to the formatter: \<^verbatim>\<open>QObject::property(name)\<close>, which is an invalid
  variant for a name the object does not have.
\<close>

type_synonym properties = "string \<Rightarrow> qvariant"

text \<open>The result is the returned flag and the value of \<^verbatim>\<open>target\<close> afterwards.\<close>

definition readRealProperty :: "properties \<Rightarrow> string \<Rightarrow> real \<Rightarrow> bool \<times> real" where
  "readRealProperty object name target =
     (let v = object name in
      if \<not> isValid v then (False, target)
      else
        (let (asDouble, ok) = toDouble v;
             (asDouble, ok) = (if \<not> ok then (real_of_int (fst (toInt v)), snd (toInt v))
                               else (asDouble, ok))
         in if \<not> ok then (False, target) else (True, asDouble)))"

text \<open>\<^verbatim>\<open>QRectF(const QRect &)\<close>.\<close>

definition rectf_of_rect :: "qrect \<Rightarrow> qrectf" where
  "rectf_of_rect r =
     QRectF (real_of_int (rect_x1 r)) (real_of_int (rect_y1 r))
            (real_of_int (rect_width r)) (real_of_int (rect_height r))"

text \<open>\<^verbatim>\<open>QVariantMap::value(key)\<close>: an invalid variant, which converts to 0, for a missing key.\<close>

definition mapValueToDouble :: "(string \<times> qvariant) list \<Rightarrow> string \<Rightarrow> real" where
  "mapValueToDouble m key = (case map_of m key of None \<Rightarrow> 0 | Some v \<Rightarrow> fst (toDouble v))"

text \<open>
  The last branch of the geometry block: the rectangle from the numeric properties.
  \<^verbatim>\<open>&&\<close> does not evaluate its right operand when the left one is false.
\<close>

definition rectFromProperties :: "properties \<Rightarrow> qrectf" where
  "rectFromProperties object =
     (let x = 0; y = 0; width = 0; height = 0;
          (okX, x) = readRealProperty object ''x'' x;
          (okY, y) = (if okX then readRealProperty object ''y'' y else (False, y));
          hasPos = (okX \<and> okY);
          (okW, width) = readRealProperty object ''width'' width;
          (okH, height) = (if okW then readRealProperty object ''height'' height
                           else (False, height));
          hasSize = (okW \<and> okH);
          (hasSize, width, height) =
             (if \<not> hasSize then
                (let (okIW, width) = readRealProperty object ''implicitWidth'' width;
                     (okIH, height) = (if okIW then readRealProperty object ''implicitHeight'' height
                                       else (False, height))
                 in (okIW \<and> okIH, width, height))
              else (hasSize, width, height))
      in if hasPos \<and> hasSize \<and> width > 0 \<and> height > 0 then QRectF x y width height
         else QRectF 0 0 0 0)"

text \<open>The value of \<^verbatim>\<open>rect\<close> when \<^verbatim>\<open>rect.isNull()\<close> is tested.\<close>

definition geometryRect :: "properties \<Rightarrow> qrectf" where
  "geometryRect object =
     (let geomVar = object ''geometry'' in
      if isValid geomVar \<and> canConvertRect geomVar then rectf_of_rect (toRect geomVar)
      else if isValid geomVar \<and> canConvertMap geomVar then
        (let geomMap = toMap geomVar in
         if map_of geomMap ''x'' \<noteq> None \<and> map_of geomMap ''y'' \<noteq> None
            \<and> map_of geomMap ''width'' \<noteq> None \<and> map_of geomMap ''height'' \<noteq> None
         then QRectF (mapValueToDouble geomMap ''x'') (mapValueToDouble geomMap ''y'')
                     (mapValueToDouble geomMap ''width'') (mapValueToDouble geomMap ''height'')
         else QRectF 0 0 0 0)
      else rectFromProperties object)"

text \<open>
  The numbers of the line \<^verbatim>\<open>Geometry: (x, y, width x height)\<close> that
  \<^verbatim>\<open>PickFormatter::handle\<close> writes, or \<open>None\<close> when it writes no such line.
\<close>

definition geometryLine :: "bool \<Rightarrow> properties \<Rightarrow> (real \<times> real \<times> real \<times> real) option" where
  "geometryLine m_showGeometry object =
     (if m_showGeometry then
        (let rect = geometryRect object in
         if \<not> rectf_isNull rect
         then Some (rectf_x rect, rectf_y rect, rectf_width rect, rectf_height rect)
         else None)
      else None)"

section \<open>Notions used in the statements\<close>

text \<open>
  The recursive equations are unfolded by hand: as rewrite rules they would unfold the
  call under the \<open>\<lambda>\<close> of their own right-hand side for ever.
\<close>

declare findQuickItemAt.simps(2) [simp del]
declare descend.simps [simp del]

text \<open>The modifiers of highlight mode: Shift and Control both held.\<close>

definition highlightModeOf :: "qevent \<Rightarrow> bool" where
  "highlightModeOf event =
     (ShiftModifier \<in> event_modifiers event \<and> ControlModifier \<in> event_modifiers event)"

text \<open>The three event types that \<open>handleEvent\<close> processes.\<close>

definition isMouseEvent :: "qevent \<Rightarrow> bool" where
  "isMouseEvent event =
     (event_type event = MouseMove \<or> event_type event = MouseButtonPress
      \<or> event_type event = MouseButtonRelease)"

text \<open>The candidate that \<open>handleEvent\<close> resolves for an event.\<close>

definition resolved :: "app \<Rightarrow> pick \<Rightarrow> qevent \<Rightarrow> candidate" where
  "resolved a s event =
     computeHighlightTarget a s (event_globalPos event) (QRectCorners 0 0 (- 1) (- 1)) None (0, 0)
       (AltModifier \<in> event_modifiers event)"

text \<open>
  What the constructor establishes between a \<open>Pick\<close> and its application: without an
  overlay there is neither a widget stack nor a \<^verbatim>\<open>QGuiApplication\<close>.
\<close>

definition overlayMatches :: "app \<Rightarrow> pick \<Rightarrow> bool" where
  "overlayMatches a s =
     (if m_highlightOverlay s = None then \<not> m_hasWidgetStack s \<and> \<not> guiApplicationInstance a
      else True)"

text \<open>Whether an overlay exists and is shown.\<close>

definition overlayVisible :: "pick \<Rightarrow> bool" where
  "overlayVisible s =
     (case m_highlightOverlay s of None \<Rightarrow> False | Some ov \<Rightarrow> overlay_isVisible ov)"

text \<open>The scene point that \<open>computeHighlightTarget\<close> hands to the picker for a window.\<close>

definition scenePosIn :: "window \<Rightarrow> qpoint \<Rightarrow> qpointf" where
  "scenePosIn win globalPos =
     (real_of_int (fst (window_mapFromGlobal win globalPos)),
      real_of_int (snd (window_mapFromGlobal win globalPos)))"

text \<open>
  What makes a point the local point of a resolved target: for a widget, the global
  position mapped by \<^verbatim>\<open>mapFromGlobal\<close> of the widget found there; for a window, the global
  position relative to the origin of the window on the screen; for a scene-graph item
  picked in a window, the scene position mapped by \<^verbatim>\<open>mapFromScene\<close> of the item, converted
  to integers.
\<close>

definition isLocalPointOf :: "app \<Rightarrow> pick \<Rightarrow> qpoint \<Rightarrow> bool \<Rightarrow> qobject \<Rightarrow> qpoint \<Rightarrow> bool" where
  "isLocalPointOf a s globalPos buttonsOnly tgt pos =
     (case tgt of
        Widget n \<Rightarrow>
          (case (if m_hasWidgetStack s then widgetAt a globalPos else None) of
             Some wdg \<Rightarrow> n = widget_addr wdg \<and> pos = widget_mapFromGlobal wdg globalPos
           | None \<Rightarrow> False)
      | Window n \<Rightarrow>
          list_ex
            (\<lambda>win. n = window_addr win
                   \<and> pos = (fst globalPos - fst (window_mapToGlobal win (0, 0)),
                            snd globalPos - snd (window_mapToGlobal win (0, 0))))
            (topLevelWindows a)
      | QuickItem n \<Rightarrow>
          list_ex
            (\<lambda>win. case window_quick win of
                     Some (Some content) \<Rightarrow>
                       (case findQuickItemAt (FUNQ_MODE_PICK_LARGEST a) [] (Some content)
                               (scenePosIn win globalPos) buttonsOnly of
                          Some quickItem \<Rightarrow>
                            n = addr (fst quickItem)
                            \<and> pos = (truncInt (fst (mapFromScene (fst quickItem)
                                                        (scenePosIn win globalPos))),
                                     truncInt (snd (mapFromScene (fst quickItem)
                                                        (scenePosIn win globalPos))))
                        | None \<Rightarrow> False)
                   | _ \<Rightarrow> False)
            (topLevelWindows a)
      | Object n \<Rightarrow> False)"

text \<open>
  The target and point the press branch is meant to report: the remembered target, else
  the resolved candidate, else the receiver with the position of the event.
\<close>

definition reportedTarget ::
    "pick \<Rightarrow> candidate \<Rightarrow> qobject option \<Rightarrow> qevent \<Rightarrow> qobject option \<times> qpoint" where
  "reportedTarget s' cand receiver event =
     (case m_highlightTarget s' of
        Some t \<Rightarrow> (Some t, m_highlightPos s')
      | None \<Rightarrow>
          (case cand of
             (True, _, Some t, p) \<Rightarrow> (Some t, p)
           | _ \<Rightarrow> (receiver, event_pos event)))"

text \<open>
  The list \<^verbatim>\<open>found\<close> that \<open>findQuickItemAt\<close> collects for an item, and the \<^verbatim>\<open>bestItem\<close>
  its ranking loop ends with, before the refinement block.
\<close>

definition foundBelow ::
    "string option \<Rightarrow> item list \<Rightarrow> item \<Rightarrow> qpointf \<Rightarrow> bool \<Rightarrow> itemptr list" where
  "foundBelow env anc item scenePos preferButtons =
     collectHits
       (map (\<lambda>child. findQuickItemAt env (item # anc) (Some child) scenePos preferButtons)
          (rev (sortChildren (childItems item))))"

definition chosenBest ::
    "string option \<Rightarrow> item list \<Rightarrow> item \<Rightarrow> qpointf \<Rightarrow> bool \<Rightarrow> itemptr option" where
  "chosenBest env anc item scenePos preferButtons =
     bestItem (rankCandidates preferButtons (preferLargestAreaOf env) scenePos
                 (foundBelow env anc item scenePos preferButtons))"

text \<open>The three flag tests that \<open>isPickableItem\<close> and \<open>deepestItemUnderPoint\<close> make.\<close>

definition passesChecks :: "item \<Rightarrow> bool" where
  "passesChecks it = (isVisible it \<and> isEnabled it \<and> 0 < opacity it)"

text \<open>
  The descent below a candidate, in words of its own. \<open>topChildUnder\<close> is the child of an
  item that \<^verbatim>\<open>childAt\<close> reports at the scene point: the last child, in the order of
  \<^verbatim>\<open>childItems()\<close>, that is visible and contains the point. A list of items is a descent
  from an item when each is the \<open>topChildUnder\<close> of the one before and is enabled and of
  opacity above 0; the descent stops at an item that has no \<open>topChildUnder\<close>, or one that
  is disabled or of opacity at most 0. No other child is tried.
\<close>

definition topChildUnder :: "item \<Rightarrow> qpointf \<Rightarrow> item option" where
  "topChildUnder cur scenePos =
     find (\<lambda>child. isVisible child
                   \<and> contains child
                        (mapFromScene child (mapToScene cur (mapFromScene cur scenePos))))
       (rev (childItems cur))"

fun isDescent :: "qpointf \<Rightarrow> item \<Rightarrow> item list \<Rightarrow> bool" where
  "isDescent scenePos cur [] = True"
| "isDescent scenePos cur (nxt # rest) =
     (topChildUnder cur scenePos = Some nxt \<and> isEnabled nxt \<and> 0 < opacity nxt
      \<and> isDescent scenePos nxt rest)"

definition descentStops :: "qpointf \<Rightarrow> item \<Rightarrow> bool" where
  "descentStops scenePos cur =
     (case topChildUnder cur scenePos of
        None \<Rightarrow> True
      | Some nxt \<Rightarrow> \<not> (isEnabled nxt \<and> 0 < opacity nxt))"

text \<open>
  The rectangle, area and distance the ranking loop computes for a candidate.
\<close>

definition sceneRect :: "item \<Rightarrow> qrectf" where
  "sceneRect it = mapRectToScene it (boundingRect it)"

definition rectArea :: "qrectf \<Rightarrow> real" where
  "rectArea r = rectf_width r * rectf_height r"

definition centerDistance :: "item \<Rightarrow> qpointf \<Rightarrow> real" where
  "centerDistance it scenePos = lineLength (rectf_center (sceneRect it)) scenePos"

text \<open>
  A numeric property as \<open>readRealProperty\<close> yields it, and the geometry assembled from
  the numeric properties: the position from \<open>x\<close>, \<open>y\<close>; the size from \<open>width\<close>, \<open>height\<close>
  when both are numeric, else from \<open>implicitWidth\<close>, \<open>implicitHeight\<close>; and only a
  positive size counts.
\<close>

definition numericProperty :: "properties \<Rightarrow> string \<Rightarrow> real option" where
  "numericProperty object name =
     (case readRealProperty object name 0 of (True, v) \<Rightarrow> Some v | (False, _) \<Rightarrow> None)"

definition assembledSize :: "properties \<Rightarrow> (real \<times> real) option" where
  "assembledSize object =
     (case (numericProperty object ''width'', numericProperty object ''height'') of
        (Some w, Some h) \<Rightarrow> Some (w, h)
      | _ \<Rightarrow>
          (case (numericProperty object ''implicitWidth'', numericProperty object ''implicitHeight'') of
             (Some w, Some h) \<Rightarrow> Some (w, h)
           | _ \<Rightarrow> None))"

definition assembledGeometry :: "properties \<Rightarrow> (real \<times> real \<times> real \<times> real) option" where
  "assembledGeometry object =
     (case (numericProperty object ''x'', numericProperty object ''y'', assembledSize object) of
        (Some x, Some y, Some (w, h)) \<Rightarrow> if w > 0 \<and> h > 0 then Some (x, y, w, h) else None
      | _ \<Rightarrow> None)"

text \<open>
  The same with the fallback worded as the specification words it: the implicit size is
  taken also when the explicit width or height is zero.
\<close>

definition spec_assembledSize :: "properties \<Rightarrow> (real \<times> real) option" where
  "spec_assembledSize object =
     (case (numericProperty object ''width'', numericProperty object ''height'') of
        (Some w, Some h) \<Rightarrow>
          if w = 0 \<or> h = 0 then
            (case (numericProperty object ''implicitWidth'', numericProperty object ''implicitHeight'') of
               (Some w, Some h) \<Rightarrow> Some (w, h)
             | _ \<Rightarrow> None)
          else Some (w, h)
      | _ \<Rightarrow>
          (case (numericProperty object ''implicitWidth'', numericProperty object ''implicitHeight'') of
             (Some w, Some h) \<Rightarrow> Some (w, h)
           | _ \<Rightarrow> None))"

definition spec_assembledGeometry :: "properties \<Rightarrow> (real \<times> real \<times> real \<times> real) option" where
  "spec_assembledGeometry object =
     (case (numericProperty object ''x'', numericProperty object ''y'', spec_assembledSize object) of
        (Some x, Some y, Some (w, h)) \<Rightarrow> if w > 0 \<and> h > 0 then Some (x, y, w, h) else None
      | _ \<Rightarrow> None)"

section \<open>Example scenes\<close>

text \<open>
  A widget of 100 by 100 pixels whose top left corner is at (20, 30) on the screen, in a
  \<^verbatim>\<open>QApplication\<close>; an application that is neither a \<^verbatim>\<open>QApplication\<close> nor a
  \<^verbatim>\<open>QGuiApplication\<close>; the \<open>Pick\<close> constructed in the first with a handler; and a mouse event at a screen position.
\<close>

definition exWidget :: widget where
  "exWidget =
     \<lparr>widget_addr = 10, widget_rect = QRect (0, 0) (QSize 100 100),
      widget_mapToGlobal = (\<lambda>p. (fst p + 20, snd p + 30)),
      widget_mapFromGlobal = (\<lambda>p. (fst p - 20, snd p - 30))\<rparr>"

definition exWidgetApp :: app where
  "exWidgetApp =
     \<lparr>qApplicationInstance = True,
      widgetAt = (\<lambda>p. if rect_contains (QRect (20, 30) (QSize 100 100)) p then Some exWidget else None),
      guiApplicationInstance = True, topLevelWindows = [], FUNQ_MODE_PICK_LARGEST = None\<rparr>"

definition exHeadlessApp :: app where
  "exHeadlessApp =
     \<lparr>qApplicationInstance = False, widgetAt = (\<lambda>p. None), guiApplicationInstance = False,
      topLevelWindows = [], FUNQ_MODE_PICK_LARGEST = None\<rparr>"

definition exPick :: pick where
  "exPick = newPick True exWidgetApp (QRectCorners 0 0 (- 1) (- 1))"

definition exEvent :: "eventType \<Rightarrow> modifier set \<Rightarrow> qpoint \<Rightarrow> qevent" where
  "exEvent t mods globalPos =
     \<lparr>event_type = t, event_modifiers = mods, event_globalPos = globalPos,
      event_pos = (fst globalPos - 20, snd globalPos - 30)\<rparr>"

definition exPickHighlighted :: pick where
  "exPickHighlighted =
     fst (snd (handleEvent exWidgetApp exPick (Some (Widget 10))
       (exEvent MouseMove {ShiftModifier, ControlModifier} (70, 80))))"

text \<open>
  An item without transformation whose top left corner is at \<open>pos\<close> in the scene, of the
  given size (not negative), visible and enabled, with the geometry functions that
  \<^verbatim>\<open>QQuickItem\<close> has by default.
\<close>

definition plainItem ::
    "nat \<Rightarrow> string list \<Rightarrow> real \<Rightarrow> real \<Rightarrow> qpointf \<Rightarrow> real \<Rightarrow> real \<Rightarrow> item list \<Rightarrow> item" where
  "plainItem a classes op zv pos w h children =
     Item a True True op zv classes
       (\<lambda>p. (fst p - fst pos, snd p - snd pos))
       (\<lambda>p. (fst p + fst pos, snd p + snd pos))
       (\<lambda>p. w \<noteq> 0 \<and> h \<noteq> 0 \<and> 0 \<le> fst p \<and> fst p \<le> w \<and> 0 \<le> snd p \<and> snd p \<le> h)
       (QRectF 0 0 w h)
       (\<lambda>r. QRectF (rectf_x r + fst pos) (rectf_y r + snd pos) (rectf_width r) (rectf_height r))
       w h children"

text \<open>
  A button of opacity 0 that holds a label of opacity 1, under a root item.
\<close>

definition exLabel :: item where
  "exLabel = plainItem 3 [''QQuickText'', ''QQuickItem'', ''QObject''] 1 0 (10, 10) 80 20 []"

definition exFadedButton :: item where
  "exFadedButton =
     plainItem 2 [''QQuickButton'', ''QQuickAbstractButton'', ''QQuickControl'', ''QQuickItem'', ''QObject'']
       0 0 (0, 0) 100 40 [exLabel]"

definition exRoot :: item where
  "exRoot = plainItem 1 [''QQuickRootItem'', ''QQuickItem'', ''QObject''] 1 0 (0, 0) 200 200 [exFadedButton]"

text \<open>
  A panel that holds an item of scale 0: the transformation of that item is singular, so
  its rectangle maps to an empty rectangle in the scene, while scene points map to
  themselves and lie inside its 100 by 100 bounds.
\<close>

definition exCollapsed :: item where
  "exCollapsed =
     Item 6 True True 1 0 [''QQuickRectangle'', ''QQuickItem'', ''QObject'']
       (\<lambda>p. p) (\<lambda>p. (50, 50))
       (\<lambda>p. 0 \<le> fst p \<and> fst p \<le> 100 \<and> 0 \<le> snd p \<and> snd p \<le> 100)
       (QRectF 0 0 100 100) (\<lambda>r. QRectF 50 50 0 0) 100 100 []"

definition exPanel :: item where
  "exPanel = plainItem 5 [''QQuickRectangle'', ''QQuickItem'', ''QObject''] 1 0 (0, 0) 100 100 [exCollapsed]"

definition exScene :: item where
  "exScene = plainItem 4 [''QQuickRootItem'', ''QQuickItem'', ''QObject''] 1 0 (0, 0) 200 200 [exPanel]"

text \<open>
  A frame that holds a child of opacity 0 which covers it.
\<close>

definition exGlass :: item where
  "exGlass = plainItem 36 [''QQuickRectangle'', ''QQuickItem'', ''QObject''] 0 0 (0, 0) 100 100 []"

definition exFrame :: item where
  "exFrame = plainItem 37 [''QQuickRectangle'', ''QQuickItem'', ''QObject''] 1 0 (0, 0) 100 100 [exGlass]"

definition exFrameRoot :: item where
  "exFrameRoot =
     plainItem 38 [''QQuickRootItem'', ''QQuickItem'', ''QObject''] 1 0 (0, 0) 200 200 [exFrame]"

text \<open>
  A shelf that holds the item of scale 0 and, after it in child order, a disabled child
  that covers the shelf.
\<close>

definition exDisabled :: item where
  "exDisabled =
     Item 41 True False 1 0 [''QQuickRectangle'', ''QQuickItem'', ''QObject'']
       (\<lambda>p. p) (\<lambda>p. p)
       (\<lambda>p. 0 \<le> fst p \<and> fst p \<le> 100 \<and> 0 \<le> snd p \<and> snd p \<le> 100)
       (QRectF 0 0 100 100) (\<lambda>r. r) 100 100 []"

definition exShelf :: item where
  "exShelf =
     plainItem 39 [''QQuickRectangle'', ''QQuickItem'', ''QObject''] 1 0 (0, 0) 100 100
       [exCollapsed, exDisabled]"

definition exShelfRoot :: item where
  "exShelfRoot =
     plainItem 42 [''QQuickRootItem'', ''QQuickItem'', ''QObject''] 1 0 (0, 0) 200 200 [exShelf]"

text \<open>
  A Qt Quick window at (100, 100) on the screen whose content item holds an item of 0.3 by
  0.4 pixels around the scene point (10, 10) and an item of 100.4 by 40.6 pixels around
  the scene point (100, 70), in an application with no widget there.
\<close>

definition exTiny :: item where
  "exTiny = plainItem 8 [''QQuickRectangle'', ''QQuickItem'', ''QObject''] 1 0 (9.85, 9.8) 0.3 0.4 []"

definition exWide :: item where
  "exWide =
     plainItem 9 [''QQuickRectangle'', ''QQuickItem'', ''QObject''] 1 0 (49.8, 49.7) 100.4 40.6 []"

definition exContent :: item where
  "exContent =
     plainItem 7 [''QQuickRootItem'', ''QQuickItem'', ''QObject''] 1 0 (0, 0) 200 200
       [exTiny, exWide]"

definition exQuickWindow :: window where
  "exQuickWindow =
     \<lparr>window_addr = 20, window_isVisible = True,
      window_mapToGlobal = (\<lambda>p. (fst p + 100, snd p + 100)),
      window_mapFromGlobal = (\<lambda>p. (fst p - 100, snd p - 100)),
      window_size = QSize 200 200, window_quick = Some (Some exContent)\<rparr>"

definition exQuickApp :: app where
  "exQuickApp =
     \<lparr>qApplicationInstance = True, widgetAt = (\<lambda>p. None), guiApplicationInstance = True,
      topLevelWindows = [exQuickWindow], FUNQ_MODE_PICK_LARGEST = None\<rparr>"

text \<open>
  Two overlapping children of a root: a button on top (\<open>z\<close> = 1) and, two pixels lower,
  a rectangle of the same size under it (\<open>z\<close> = 0).
\<close>

definition exButtonTop :: item where
  "exButtonTop =
     plainItem 12 [''QQuickButton'', ''QQuickAbstractButton'', ''QQuickControl'', ''QQuickItem'', ''QObject'']
       1 1 (0, 0) 100 40 []"

definition exPlainBelow :: item where
  "exPlainBelow = plainItem 11 [''QQuickRectangle'', ''QQuickItem'', ''QObject''] 1 0 (0, 2) 100 40 []"

definition exOverlap :: item where
  "exOverlap =
     plainItem 10 [''QQuickRootItem'', ''QQuickItem'', ''QObject''] 1 0 (0, 0) 200 200
       [exPlainBelow, exButtonTop]"

text \<open>
  Pairs of children with the same center (5, 5): areas 100 and 100.5; areas 100 and 400;
  the latter pair with a third child whose center is (5, 8), and with a third child of
  opacity 0 on top; and a rectangle of area 100 on top of a button of area 400.
\<close>

definition exSmall :: item where
  "exSmall = plainItem 22 [''QQuickRectangle'', ''QQuickItem'', ''QObject''] 1 0 (0, 0) 10 10 []"

definition exLarger :: item where
  "exLarger = plainItem 23 [''QQuickRectangle'', ''QQuickItem'', ''QObject''] 1 0 (- 0.025, 0) 10.05 10 []"

definition exPairClose :: item where
  "exPairClose =
     plainItem 21 [''QQuickRootItem'', ''QQuickItem'', ''QObject''] 1 0 (0, 0) 200 200 [exSmall, exLarger]"

definition exBig :: item where
  "exBig = plainItem 24 [''QQuickRectangle'', ''QQuickItem'', ''QObject''] 1 0 (- 5, - 5) 20 20 []"

definition exPairApart :: item where
  "exPairApart =
     plainItem 25 [''QQuickRootItem'', ''QQuickItem'', ''QObject''] 1 0 (0, 0) 200 200 [exSmall, exBig]"

definition exNear :: item where
  "exNear = plainItem 32 [''QQuickRectangle'', ''QQuickItem'', ''QObject''] 1 0 (0, 3) 10 10 []"

definition exTriple :: item where
  "exTriple =
     plainItem 33 [''QQuickRootItem'', ''QQuickItem'', ''QObject''] 1 0 (0, 0) 200 200
       [exSmall, exBig, exNear]"

definition exFaded :: item where
  "exFaded = plainItem 34 [''QQuickRectangle'', ''QQuickItem'', ''QObject''] 0 2 (0, 0) 30 30 []"

definition exPairAndFaded :: item where
  "exPairAndFaded =
     plainItem 35 [''QQuickRootItem'', ''QQuickItem'', ''QObject''] 1 0 (0, 0) 200 200
       [exSmall, exFaded, exBig]"

definition exSmallTop :: item where
  "exSmallTop = plainItem 26 [''QQuickRectangle'', ''QQuickItem'', ''QObject''] 1 1 (0, 0) 10 10 []"

definition exBigButton :: item where
  "exBigButton =
     plainItem 27 [''QQuickButton'', ''QQuickAbstractButton'', ''QQuickControl'', ''QQuickItem'', ''QObject'']
       1 0 (- 5, - 5) 20 20 []"

definition exPairButton :: item where
  "exPairButton =
     plainItem 28 [''QQuickRootItem'', ''QQuickItem'', ''QObject''] 1 0 (0, 0) 200 200
       [exSmallTop, exBigButton]"

text \<open>
  Variants: an invalid one, and a number. Objects with numeric properties: one whose
  explicit size is zero, and one that has no \<open>height\<close>.
\<close>

definition invalidVariant :: qvariant where
  "invalidVariant =
     QVariant False (0, False) (0, False) False (QRectCorners 0 0 (- 1) (- 1)) False []"

definition doubleVariant :: "real \<Rightarrow> qvariant" where
  "doubleVariant d =
     QVariant True (d, True) (truncInt d, True) False (QRectCorners 0 0 (- 1) (- 1)) False []"

definition exZeroSized :: properties where
  "exZeroSized =
     (\<lambda>name. invalidVariant)
       (''x'' := doubleVariant 3, ''y'' := doubleVariant 4,
        ''width'' := doubleVariant 0, ''height'' := doubleVariant 0,
        ''implicitWidth'' := doubleVariant 10, ''implicitHeight'' := doubleVariant 20)"

definition exNoHeight :: properties where
  "exNoHeight =
     (\<lambda>name. invalidVariant)
       (''x'' := doubleVariant 3, ''y'' := doubleVariant 4,
        ''width'' := doubleVariant 7,
        ''implicitWidth'' := doubleVariant 10, ''implicitHeight'' := doubleVariant 20)"

section \<open>The event router\<close>

lemma overlay_showRect_visible: "overlay_isVisible (showRect ov r)"
  by (cases ov) auto

lemma overlay_hide_hidden: "\<not> overlay_isVisible (hide ov)"
  by (cases ov) auto

lemma newPick_overlayMatches: "overlayMatches a (newPick handler a geometry)"
  by (simp add: newPick_def overlayMatches_def Let_def)

lemma handleEvent_overlayMatches:
  "overlayMatches a s \<Longrightarrow> overlayMatches a (fst (snd (handleEvent a s receiver event)))"
  by (auto simp: handleEvent_def overlayMatches_def showHighlight_def hideHighlight_def Let_def
        split: prod.splits option.splits if_splits)

lemma no_candidate_without_application:
  "\<not> m_hasWidgetStack s \<Longrightarrow> \<not> guiApplicationInstance a
     \<Longrightarrow> \<not> fst (computeHighlightTarget a s globalPos outRect target localPos buttonsOnly)"
  by (simp add: computeHighlightTarget_def)

text \<open>
  C6: after a processed mouse move, press or release event, the overlay is visible if and
  only if highlight mode (Shift and Control both held) was active for the event and a
  candidate was found under the cursor; otherwise it is hidden. This holds for the \<open>Pick\<close>
  constructed in the application and after every event it handles there.
\<close>

theorem overlay_visible_iff:
  assumes "m_handler s" and "overlayMatches a s" and "isMouseEvent event"
  shows "overlayVisible (fst (snd (handleEvent a s receiver event)))
           = (highlightModeOf event \<and> fst (resolved a s event))"
proof (cases "m_highlightOverlay s")
  case None
  with assms(2) have "\<not> fst (resolved a s event)"
    by (simp add: overlayMatches_def resolved_def no_candidate_without_application)
  with assms(1,3) None show ?thesis
    by (auto simp: handleEvent_def isMouseEvent_def resolved_def overlayVisible_def
          showHighlight_def hideHighlight_def Let_def split: prod.splits)
next
  case (Some ov)
  with assms(1,3) show ?thesis
    by (auto simp: handleEvent_def isMouseEvent_def highlightModeOf_def resolved_def
          overlayVisible_def showHighlight_def hideHighlight_def Let_def
          overlay_showRect_visible overlay_hide_hidden split: prod.splits)
qed

lemmas evE = handleEvent_def computeHighlightTarget_def exWidgetApp_def exPick_def newPick_def
  exEvent_def exWidget_def
  isMouseEvent_def highlightModeOf_def resolved_def overlayVisible_def showHighlight_def hideHighlight_def
  Let_def rect_contains_def QRect_def rect_topLeft_def rect_size_def rect_width_def rect_height_def

theorem overlay_visible_iff_witness:
  "overlayVisible (fst (snd (handleEvent exWidgetApp exPick (Some (Widget 10))
       (exEvent MouseMove {ShiftModifier, ControlModifier} (70, 80)))))
   \<and> \<not> overlayVisible (fst (snd (handleEvent exWidgetApp exPick (Some (Widget 10))
       (exEvent MouseMove {ShiftModifier, ControlModifier} (5, 5)))))
   \<and> \<not> overlayVisible (fst (snd (handleEvent exWidgetApp exPick (Some (Widget 10))
       (exEvent MouseMove {} (70, 80)))))
   \<and> \<not> overlayVisible (fst (snd (handleEvent exHeadlessApp
       (newPick True exHeadlessApp (QRectCorners 0 0 (- 1) (- 1))) (Some (Object 99))
       (exEvent MouseMove {ShiftModifier, ControlModifier} (70, 80)))))"
  using overlay_visible_iff
          [where s = exPick and a = exWidgetApp and receiver = "Some (Widget 10)"
             and event = "exEvent MouseMove {ShiftModifier, ControlModifier} (70, 80)"]
        overlay_visible_iff
          [where s = exPick and a = exWidgetApp and receiver = "Some (Widget 10)"
             and event = "exEvent MouseMove {ShiftModifier, ControlModifier} (5, 5)"]
        overlay_visible_iff
          [where s = exPick and a = exWidgetApp and receiver = "Some (Widget 10)"
             and event = "exEvent MouseMove {} (70, 80)"]
        overlay_visible_iff
          [where s = "newPick True exHeadlessApp (QRectCorners 0 0 (- 1) (- 1))"
             and a = exHeadlessApp and receiver = "Some (Object 99)"
             and event = "exEvent MouseMove {ShiftModifier, ControlModifier} (70, 80)"]
  by (simp add: evE overlayMatches_def exHeadlessApp_def)

lemma windowLoop_target:
  "windowLoop a globalPos buttonsOnly outRect localPos windows = (True, rect, target, pos)
     \<Longrightarrow> target \<noteq> None"
  by (induction windows)
     (auto simp: Let_def quickItemCandidate_def split: if_splits option.splits)

lemma computeHighlightTarget_target:
  "computeHighlightTarget a s globalPos outRect target localPos buttonsOnly = (True, rect, target', pos)
     \<Longrightarrow> target' \<noteq> None"
  by (auto simp: computeHighlightTarget_def Let_def split: if_splits option.splits
           dest: windowLoop_target)

lemma windowLoop_local:
  "windowLoop a globalPos buttonsOnly outRect localPos windows = (True, rect, Some tgt, pos)
     \<Longrightarrow> (case tgt of
            Widget n \<Rightarrow> False
          | Window n \<Rightarrow>
              list_ex
                (\<lambda>win. n = window_addr win
                       \<and> pos = (fst globalPos - fst (window_mapToGlobal win (0, 0)),
                                snd globalPos - snd (window_mapToGlobal win (0, 0))))
                windows
          | QuickItem n \<Rightarrow>
              list_ex
                (\<lambda>win. case window_quick win of
                         Some (Some content) \<Rightarrow>
                           (case findQuickItemAt (FUNQ_MODE_PICK_LARGEST a) [] (Some content)
                                   (scenePosIn win globalPos) buttonsOnly of
                              Some quickItem \<Rightarrow>
                                n = addr (fst quickItem)
                                \<and> pos = (truncInt (fst (mapFromScene (fst quickItem)
                                                            (scenePosIn win globalPos))),
                                         truncInt (snd (mapFromScene (fst quickItem)
                                                            (scenePosIn win globalPos))))
                            | None \<Rightarrow> False)
                       | _ \<Rightarrow> False)
                windows
          | Object n \<Rightarrow> False)"
proof (induction windows)
  case Nil
  then show ?case by simp
next
  case (Cons win windows)
  show ?case
  proof (cases "windowLoop a globalPos buttonsOnly outRect localPos (win # windows)
                  = windowLoop a globalPos buttonsOnly outRect localPos windows")
    case True
    with Cons show ?thesis
      by (cases tgt) simp_all
  next
    case False
    with Cons.prems show ?thesis
      by (auto simp: Let_def scenePosIn_def quickItemCandidate_def
            QRect_def rect_topLeft_def split: if_splits option.splits)
  qed
qed

lemma computeHighlightTarget_local:
  assumes "computeHighlightTarget a s globalPos outRect target localPos buttonsOnly
             = (True, rect, Some tgt, pos)"
  shows "isLocalPointOf a s globalPos buttonsOnly tgt pos"
proof (cases "if m_hasWidgetStack s then widgetAt a globalPos else None")
  case (Some wdg)
  with assms show ?thesis
    by (auto simp: computeHighlightTarget_def Let_def isLocalPointOf_def)
next
  case None
  with assms
  have "windowLoop a globalPos buttonsOnly outRect localPos (topLevelWindows a)
          = (True, rect, Some tgt, pos)"
    by (auto simp: computeHighlightTarget_def split: if_splits)
  from windowLoop_local [OF this] show ?thesis
    by (cases tgt) (simp_all add: isLocalPointOf_def)
qed

text \<open>
  A press with Shift and Control held where no widget is, with a null receiver: the
  handler is called with a null target.
\<close>

theorem press_null_receiver_counterexample:
  "fst (resolved exWidgetApp exPick
          (exEvent MouseButtonPress {ShiftModifier, ControlModifier} (5, 5))) = False
   \<and> handleEvent exWidgetApp exPick None
        (exEvent MouseButtonPress {ShiftModifier, ControlModifier} (5, 5))
       = (True, exPick, [(None, (- 15, - 25))])"
  by (simp add: evE)

text \<open>
  C7, amended: on a mouse press with Shift and Control held, \<open>handleEvent\<close> returns true
  and calls the handler exactly once, with the remembered target if there is one, else
  the resolved candidate, else the receiver. When a candidate was resolved the call
  carries that candidate, which is not null, and the point is its local point; otherwise
  the call carries the receiver and the position of the event, so the target is not
  null when the receiver is not null.
\<close>

theorem press_reports_once:
  assumes "m_handler s" and "event_type event = MouseButtonPress" and "highlightModeOf event"
  shows "fst (handleEvent a s receiver event)
         \<and> snd (snd (handleEvent a s receiver event))
             = [reportedTarget (fst (snd (handleEvent a s receiver event))) (resolved a s event)
                  receiver event]
         \<and> (fst (resolved a s event)
              \<longrightarrow> reportedTarget (fst (snd (handleEvent a s receiver event))) (resolved a s event)
                    receiver event
                  = (fst (snd (snd (resolved a s event))), snd (snd (snd (resolved a s event))))
                \<and> (\<exists>t. fst (snd (snd (resolved a s event))) = Some t
                      \<and> isLocalPointOf a s (event_globalPos event)
                            (AltModifier \<in> event_modifiers event) t
                            (snd (snd (snd (resolved a s event))))))
         \<and> (\<not> fst (resolved a s event)
              \<longrightarrow> reportedTarget (fst (snd (handleEvent a s receiver event))) (resolved a s event)
                    receiver event
                  = (receiver, event_pos event))
         \<and> (fst (resolved a s event) \<or> receiver \<noteq> None
              \<longrightarrow> fst (reportedTarget (fst (snd (handleEvent a s receiver event)))
                        (resolved a s event) receiver event) \<noteq> None)"
proof -
  obtain hasCandidate cRect cTarget cPos
    where r: "resolved a s event = (hasCandidate, cRect, cTarget, cPos)"
    by (cases "resolved a s event") auto
  have nn: "hasCandidate \<Longrightarrow> cTarget \<noteq> None"
    using r computeHighlightTarget_target [of a s] by (cases hasCandidate) (auto simp: resolved_def)
  show ?thesis
  proof (cases hasCandidate)
    case True
    with nn obtain t where t: "cTarget = Some t" by auto
    from r True t
    have "isLocalPointOf a s (event_globalPos event) (AltModifier \<in> event_modifiers event) t cPos"
      by (auto simp: resolved_def dest: computeHighlightTarget_local)
    then show ?thesis
      using assms r True t
      by (simp add: handleEvent_def highlightModeOf_def resolved_def reportedTarget_def
            showHighlight_def Let_def split: option.splits)
  next
    case False
    show ?thesis
      using assms r False
      by (cases receiver)
         (simp_all add: handleEvent_def highlightModeOf_def resolved_def reportedTarget_def
            hideHighlight_def Let_def split: option.splits)
  qed
qed

theorem press_reports_once_witness:
  "handleEvent exWidgetApp exPick (Some (Object 99))
       (exEvent MouseButtonPress {ShiftModifier, ControlModifier} (70, 80))
     = (True,
        exPick\<lparr>m_highlightOverlay :=
                  Some (WidgetHighlightOverlay True (QRect (20, 30) (QSize 100 100))),
               m_highlightTarget := Some (Widget 10), m_highlightPos := (50, 50)\<rparr>,
        [(Some (Widget 10), (50, 50))])
   \<and> isLocalPointOf exWidgetApp exPick (70, 80) False (Widget 10) (50, 50)
   \<and> snd (snd (handleEvent exWidgetApp exPick (Some (Object 99))
       (exEvent MouseButtonPress {ShiftModifier, ControlModifier} (5, 5))))
     = [(Some (Object 99), (- 15, - 25))]"
  using press_reports_once [of exPick "exEvent MouseButtonPress {ShiftModifier, ControlModifier} (70, 80)"
          exWidgetApp "Some (Object 99)"]
        press_reports_once [of exPick "exEvent MouseButtonPress {ShiftModifier, ControlModifier} (5, 5)"
          exWidgetApp "Some (Object 99)"]
  by (simp add: evE reportedTarget_def isLocalPointOf_def)

lemma exPickHighlighted_eq:
  "exPickHighlighted =
     exPick\<lparr>m_highlightOverlay :=
               Some (WidgetHighlightOverlay True (QRect (20, 30) (QSize 100 100))),
            m_highlightTarget := Some (Widget 10), m_highlightPos := (50, 50)\<rparr>"
  by (simp add: exPickHighlighted_def evE)

text \<open>
  After a highlight at local point (50, 50), a move without modifiers clears the target
  but the remembered point is still (50, 50), not the initial (0, 0).
\<close>

theorem highlight_pos_not_reset_counterexample:
  "m_highlightPos exPick = (0, 0)
   \<and> m_highlightPos exPickHighlighted = (50, 50)
   \<and> \<not> highlightModeOf (exEvent MouseMove {} (70, 80))
   \<and> m_highlightTarget (fst (snd (handleEvent exWidgetApp exPickHighlighted (Some (Widget 10))
         (exEvent MouseMove {} (70, 80))))) = None
   \<and> m_highlightPos (fst (snd (handleEvent exWidgetApp exPickHighlighted (Some (Widget 10))
         (exEvent MouseMove {} (70, 80))))) = (50, 50)"
  by (simp add: exPickHighlighted_eq) (simp add: evE)

text \<open>
  C8, amended: after a mouse event in which highlight mode is not active or no candidate
  is found, the remembered target is null and the remembered point is what it was before.
\<close>

theorem highlight_reset_keeps_pos:
  assumes "m_handler s" and "isMouseEvent event"
      and "\<not> (highlightModeOf event \<and> fst (resolved a s event))"
  shows "m_highlightTarget (fst (snd (handleEvent a s receiver event))) = None
         \<and> m_highlightPos (fst (snd (handleEvent a s receiver event))) = m_highlightPos s"
  using assms
  by (auto simp: handleEvent_def isMouseEvent_def highlightModeOf_def resolved_def
        hideHighlight_def Let_def split: prod.splits option.splits)

theorem highlight_reset_keeps_pos_witness:
  "m_highlightTarget (fst (snd (handleEvent exWidgetApp exPickHighlighted (Some (Widget 10))
         (exEvent MouseMove {ShiftModifier, ControlModifier} (5, 5))))) = None
   \<and> m_highlightPos (fst (snd (handleEvent exWidgetApp exPickHighlighted (Some (Widget 10))
         (exEvent MouseMove {ShiftModifier, ControlModifier} (5, 5))))) = (50, 50)"
  using highlight_reset_keeps_pos [of exPickHighlighted
          "exEvent MouseMove {ShiftModifier, ControlModifier} (5, 5)" exWidgetApp "Some (Widget 10)"]
  by (simp add: exPickHighlighted_eq) (simp add: evE)

section \<open>The geometry line of the formatter\<close>

lemma readRealProperty_numeric:
  "readRealProperty object name t =
     (case numericProperty object name of None \<Rightarrow> (False, t) | Some v \<Rightarrow> (True, v))"
  by (auto simp: readRealProperty_def numericProperty_def Let_def split: prod.splits if_splits)

lemma rectFromProperties_assembled:
  "rectFromProperties object =
     (case assembledGeometry object of
        Some (x, y, w, h) \<Rightarrow> QRectF x y w h
      | None \<Rightarrow> QRectF 0 0 0 0)"
  by (auto simp: rectFromProperties_def readRealProperty_numeric assembledGeometry_def
        assembledSize_def Let_def split: option.splits)

lemma assembledGeometry_positive:
  "assembledGeometry object = Some (x, y, w, h) \<Longrightarrow> 0 < w \<and> 0 < h"
  by (auto simp: assembledGeometry_def split: option.splits if_splits prod.splits)

text \<open>
  C9, amended: for an object whose \<open>geometry\<close> property is invalid or converts neither to a
  rectangle nor to a map, the formatter assembles the rectangle from the numeric properties
  \<open>x\<close>, \<open>y\<close>, \<open>width\<close>, \<open>height\<close>, and takes \<open>implicitWidth\<close>, \<open>implicitHeight\<close> instead only
  when \<open>width\<close> or \<open>height\<close> is absent or not numeric; a geometry line is written exactly
  when a position and a positive size are obtained this way.
\<close>

theorem geometry_from_numeric_properties:
  assumes "\<not> (isValid (object ''geometry'')
              \<and> (canConvertRect (object ''geometry'') \<or> canConvertMap (object ''geometry'')))"
  shows "geometryLine True object = assembledGeometry object"
proof (cases "assembledGeometry object")
  case None
  with assms show ?thesis
    by (auto simp: geometryLine_def geometryRect_def rectFromProperties_assembled rectf_isNull_def
          Let_def)
next
  case (Some g)
  obtain x y w h where g: "g = (x, y, w, h)" by (cases g) auto
  with Some have "0 < w \<and> 0 < h" by (auto dest: assembledGeometry_positive)
  with assms Some g show ?thesis
    by (auto simp: geometryLine_def geometryRect_def rectFromProperties_assembled rectf_isNull_def
          Let_def)
qed

lemmas ev9 = geometryLine_def geometryRect_def rectFromProperties_def readRealProperty_def
  invalidVariant_def doubleVariant_def rectf_isNull_def Let_def numericProperty_def
  assembledGeometry_def assembledSize_def spec_assembledGeometry_def spec_assembledSize_def

text \<open>
  An object with \<open>width\<close> and \<open>height\<close> zero and an implicit size of 10 by 20: with the
  fallback on a zero size a rectangle would be written; the formatter writes none.
\<close>

theorem geometry_zero_size_counterexample:
  "numericProperty exZeroSized ''width'' = Some 0
   \<and> numericProperty exZeroSized ''implicitWidth'' = Some 10
   \<and> numericProperty exZeroSized ''implicitHeight'' = Some 20
   \<and> spec_assembledGeometry exZeroSized = Some (3, 4, 10, 20)
   \<and> geometryLine True exZeroSized = None"
  by (simp add: exZeroSized_def ev9)

theorem geometry_from_numeric_properties_witness:
  "geometryLine True exNoHeight = Some (3, 4, 10, 20)
   \<and> geometryLine True exZeroSized = None"
  using geometry_from_numeric_properties [of exNoHeight]
        geometry_from_numeric_properties [of exZeroSized]
  by (simp add: exNoHeight_def exZeroSized_def ev9)

section \<open>The scene-graph picker\<close>

subsection \<open>What the recursion returns\<close>

lemma findQuickItemAt_Some:
  "findQuickItemAt env anc (Some item) scenePos preferButtons =
     (case chosenBest env anc item scenePos preferButtons of
        Some bestIt \<Rightarrow> Some (refineBest preferButtons scenePos bestIt)
      | None \<Rightarrow>
          (case isPickableItem (Some item) scenePos of
             None \<Rightarrow> None
           | Some localPoint \<Rightarrow> Some (item, anc)))"
  by (subst findQuickItemAt.simps(2))
     (simp add: chosenBest_def foundBelow_def Let_def rankCandidates_def initBest_def
        split: option.splits)

lemma collectHits_map:
  "h \<in> set (collectHits (map f xs)) \<Longrightarrow> \<exists>c \<in> set xs. f c = Some h"
proof (induction xs)
  case Nil
  then show ?case by simp
next
  case (Cons x xs)
  then show ?case by (cases "f x") auto
qed

lemma foundBelow_child:
  assumes "h \<in> set (foundBelow env anc item scenePos preferButtons)"
  shows "\<exists>c \<in> set (childItems item).
           findQuickItemAt env (item # anc) (Some c) scenePos preferButtons = Some h"
  using collectHits_map [OF assms [unfolded foundBelow_def]]
  by (simp add: set_sortChildren)

lemma rankStep_bestItem:
  "bestItem (rankStep pb largest scenePos b c) = bestItem b
   \<or> bestItem (rankStep pb largest scenePos b c) = Some c"
  by (simp add: rankStep_def Let_def)

lemma rankLoop_bestItem:
  "bestItem (foldl (rankStep pb largest scenePos) b found) = Some x
     \<Longrightarrow> bestItem b = Some x \<or> x \<in> set found"
proof (induction found arbitrary: b)
  case Nil
  then show ?case by simp
next
  case (Cons c cs)
  from Cons.IH [of "rankStep pb largest scenePos b c"] Cons.prems
  have "bestItem (rankStep pb largest scenePos b c) = Some x \<or> x \<in> set cs" by simp
  with rankStep_bestItem [of pb largest scenePos b c] show ?case by auto
qed

lemma chosenBest_found:
  "chosenBest env anc item scenePos pb = Some b
     \<Longrightarrow> b \<in> set (foundBelow env anc item scenePos pb)"
  by (auto simp: chosenBest_def rankCandidates_def initBest_def dest: rankLoop_bestItem)

lemma descend_passesChecks:
  "passesChecks current \<Longrightarrow> passesChecks (fst (descend current anc scenePos))"
proof (induction current anc scenePos rule: descend.induct)
  case (1 current anc scenePos)
  show ?case
  proof (cases "childAt current (mapFromScene current scenePos)")
    case None
    with "1.prems" show ?thesis by (subst descend.simps) simp
  next
    case (Some nxt)
    show ?thesis
    proof (cases "\<not> isVisible nxt \<or> \<not> isEnabled nxt \<or> opacity nxt \<le> 0")
      case True
      with Some "1.prems" show ?thesis by (subst descend.simps) simp
    next
      case False
      then have "passesChecks nxt" by (simp add: passesChecks_def)
      with "1.IH" [OF refl Some False] have "passesChecks (fst (descend nxt (current # anc) scenePos))" .
      with Some False show ?thesis by (subst descend.simps) simp
    qed
  qed
qed

lemma deepestItemUnderPoint_passesChecks:
  "deepestItemUnderPoint (Some b) scenePos = Some leaf \<Longrightarrow> passesChecks (fst leaf)"
proof -
  obtain r anc where b: "b = (r, anc)" by (cases b) auto
  assume "deepestItemUnderPoint (Some b) scenePos = Some leaf"
  with b have "passesChecks r" and "leaf = descend r anc scenePos"
    by (auto simp: deepestItemUnderPoint_def Let_def passesChecks_def split: if_splits)
  then show ?thesis by (simp add: descend_passesChecks)
qed

lemma firstButtonUp_isButtonLike:
  "firstButtonUp it anc = Some button \<Longrightarrow> isButtonLike (Some (fst button))"
  by (induction it anc rule: firstButtonUp.induct) (auto split: if_splits)

lemma refineBest_cases:
  "refineBest pb scenePos b = b
   \<or> (pb \<and> isButtonLike (Some (fst (refineBest pb scenePos b))))
   \<or> (pb \<and> passesChecks (fst (refineBest pb scenePos b)))"
  by (auto simp: refineBest_def promoteToButtonAncestor_def
           split: option.splits prod.splits
           dest: firstButtonUp_isButtonLike deepestItemUnderPoint_passesChecks)

lemma result_checked_or_button:
  "findQuickItemAt env anc it scenePos pb = Some r
     \<Longrightarrow> passesChecks (fst r) \<or> (pb \<and> isButtonLike (Some (fst r)))"
proof (induction env anc it scenePos pb arbitrary: r rule: findQuickItemAt.induct)
  case (1 env anc scenePos pb)
  then show ?case by simp
next
  case (2 env anc item scenePos pb)
  show ?case
  proof (cases "chosenBest env anc item scenePos pb")
    case None
    with "2.prems" have "r = (item, anc)" and "isPickableItem (Some item) scenePos \<noteq> None"
      by (auto simp: findQuickItemAt_Some split: option.splits)
    then show ?thesis
      by (auto simp: isPickableItem_def passesChecks_def Let_def split: if_splits)
  next
    case (Some b)
    with "2.prems" have r: "r = refineBest pb scenePos b"
      by (simp add: findQuickItemAt_Some)
    from chosenBest_found [OF Some] foundBelow_child
    obtain c where c: "c \<in> set (childItems item)"
      and hit: "findQuickItemAt env (item # anc) (Some c) scenePos pb = Some b"
      by blast
    from c have "c \<in> set (rev (sortChildren (childItems item)))"
      by (simp add: set_sortChildren)
    from "2.IH" [OF refl this hit]
    have b: "passesChecks (fst b) \<or> (pb \<and> isButtonLike (Some (fst b)))" .
    with refineBest_cases [of pb scenePos b] r show ?thesis by auto
  qed
qed

lemma result_pickable:
  "findQuickItemAt env anc it scenePos pb = Some r \<Longrightarrow> \<not> pb
     \<Longrightarrow> isPickableItem (Some (fst r)) scenePos \<noteq> None
         \<and> (\<exists>it'. it = Some it' \<and> (r = (it', anc) \<or> length anc < length (snd r)))"
proof (induction env anc it scenePos pb arbitrary: r rule: findQuickItemAt.induct)
  case (1 env anc scenePos pb)
  then show ?case by simp
next
  case (2 env anc item scenePos pb)
  show ?case
  proof (cases "chosenBest env anc item scenePos pb")
    case None
    with "2.prems" have "r = (item, anc)" and "isPickableItem (Some item) scenePos \<noteq> None"
      by (auto simp: findQuickItemAt_Some split: option.splits)
    then show ?thesis by simp
  next
    case (Some b)
    with "2.prems" have r: "r = b"
      by (simp add: findQuickItemAt_Some refineBest_def)
    from chosenBest_found [OF Some] foundBelow_child
    obtain c where c: "c \<in> set (childItems item)"
      and hit: "findQuickItemAt env (item # anc) (Some c) scenePos pb = Some b"
      by blast
    from c have "c \<in> set (rev (sortChildren (childItems item)))"
      by (simp add: set_sortChildren)
    from "2.IH" [OF refl this hit] "2.prems" r show ?thesis by auto
  qed
qed

subsection \<open>Evaluation on the example scenes\<close>

text \<open>
  The recursive equation restricted to an item given by its constructor, which does not
  match the bound child of its own right-hand side.
\<close>

lemmas findQuickItemAt_Item =
  findQuickItemAt.simps(2) [of _ _ "Item a v e op zv cc mf mt c br mr w h ch"]
  for a v e op zv cc mf mt c br mr w h ch

lemmas chosenBest_Item =
  chosenBest_def [of _ _ "Item a v e op zv cc mf mt c br mr w h ch"]
  for a v e op zv cc mf mt c br mr w h ch

lemmas evalPick = plainItem_def findQuickItemAt_Item Let_def sortChildren_def isPickableItem_def
  rankCandidates_def rankStep_def isBetter_def initBest_def rectf_isEmpty_def rectf_center_def
  lineLength_def DBL_MAX_def kDistEps_def kAreaEps_def kButtonBoostPx_def refineBest_def
  preferLargestAreaOf_def deepestItemUnderPoint_def promoteToButtonAncestor_def isButtonLike_def
  kButtonTypes_def inherits_def containsCaseInsensitive_def toLower_def childAt_def descend.simps
  zLess_def qFuzzyCompare_def chosenBest_Item foundBelow_def passesChecks_def

subsection \<open>Invisible, disabled and transparent elements\<close>

text \<open>
  With \<open>preferButtons\<close> set, the pick at (50, 20) returns the button, whose opacity is 0:
  the label under the point is promoted to it.
\<close>

theorem promoted_button_unchecked_counterexample:
  "opacity exFadedButton = 0
   \<and> findQuickItemAt None [] (Some exRoot) (50, 20) True = Some (exFadedButton, [exRoot])"
  by (simp add: exRoot_def exFadedButton_def exLabel_def evalPick)

text \<open>
  C5, amended: an element returned by \<open>findQuickItemAt\<close> is visible, enabled and of
  opacity above 0, unless \<open>preferButtons\<close> is set and the element is button-like: a
  button-like ancestor reached by promotion is returned without these tests.
\<close>

theorem result_passes_checks_or_button:
  assumes "findQuickItemAt env anc it scenePos preferButtons = Some r"
  shows "(isVisible (fst r) \<and> isEnabled (fst r) \<and> 0 < opacity (fst r))
         \<or> (preferButtons \<and> isButtonLike (Some (fst r)))"
  using result_checked_or_button [OF assms] by (simp add: passesChecks_def)

theorem result_passes_checks_or_button_witness:
  "findQuickItemAt None [] (Some exRoot) (50, 20) False = Some (exLabel, [exFadedButton, exRoot])
   \<and> isVisible exLabel \<and> isEnabled exLabel \<and> 0 < opacity exLabel
   \<and> findQuickItemAt None [] (Some exRoot) (50, 20) True = Some (exFadedButton, [exRoot])
   \<and> isButtonLike (Some exFadedButton)"
proof -
  have f: "findQuickItemAt None [] (Some exRoot) (50, 20) False
             = Some (exLabel, [exFadedButton, exRoot])"
    by (simp add: exRoot_def exFadedButton_def exLabel_def evalPick)
  have t: "findQuickItemAt None [] (Some exRoot) (50, 20) True = Some (exFadedButton, [exRoot])"
    by (simp add: exRoot_def exFadedButton_def exLabel_def evalPick)
  have o: "\<not> 0 < opacity exFadedButton"
    by (simp add: exFadedButton_def plainItem_def)
  from result_passes_checks_or_button [OF f] result_passes_checks_or_button [OF t] f t o
  show ?thesis by simp
qed

subsection \<open>A root that fails the test\<close>

text \<open>
  The button of opacity 0 as root: it fails the test of \<open>isPickableItem\<close>, and the pick
  returns its label.
\<close>

theorem unpickable_root_counterexample:
  "opacity exFadedButton \<le> 0
   \<and> isPickableItem (Some exFadedButton) (50, 20) = None
   \<and> findQuickItemAt None [exRoot] (Some exFadedButton) (50, 20) False
       = Some (exLabel, [exFadedButton, exRoot])"
  by (simp add: exRoot_def exFadedButton_def exLabel_def evalPick)

text \<open>
  C1, amended: for a root that is null, not visible, not enabled, of opacity at most 0, or
  whose bounds do not contain the point: a null root yields no candidate; the root yields
  no candidate when none of its children yields one; and with \<open>preferButtons\<close> off every
  result passes the test itself, so it is not the root but an item below it.
\<close>

theorem unpickable_root:
  assumes "isPickableItem rootItem scenePos = None"
  shows "(rootItem = None \<longrightarrow> findQuickItemAt env anc rootItem scenePos preferButtons = None)
         \<and> ((\<forall>item child. rootItem = Some item \<longrightarrow> child \<in> set (childItems item) \<longrightarrow>
                findQuickItemAt env (item # anc) (Some child) scenePos preferButtons = None)
              \<longrightarrow> findQuickItemAt env anc rootItem scenePos preferButtons = None)
         \<and> (\<forall>r. findQuickItemAt env anc rootItem scenePos False = Some r \<longrightarrow>
                isPickableItem (Some (fst r)) scenePos \<noteq> None
                \<and> rootItem \<noteq> Some (fst r) \<and> length anc < length (snd r))"
proof (cases rootItem)
  case None
  then show ?thesis by simp
next
  case (Some item)
  have "findQuickItemAt env anc (Some item) scenePos preferButtons = None"
    if none: "\<forall>child \<in> set (childItems item).
                findQuickItemAt env (item # anc) (Some child) scenePos preferButtons = None"
  proof -
    have "chosenBest env anc item scenePos preferButtons = None"
    proof (rule ccontr)
      assume "chosenBest env anc item scenePos preferButtons \<noteq> None"
      then obtain b where "chosenBest env anc item scenePos preferButtons = Some b" by auto
      from foundBelow_child [OF chosenBest_found [OF this]] none show False by auto
    qed
    with assms Some show ?thesis by (simp add: findQuickItemAt_Some)
  qed
  moreover have "isPickableItem (Some (fst r)) scenePos \<noteq> None
                 \<and> Some item \<noteq> Some (fst r) \<and> length anc < length (snd r)"
    if r: "findQuickItemAt env anc (Some item) scenePos False = Some r" for r
  proof -
    from result_pickable [OF r]
    have p: "isPickableItem (Some (fst r)) scenePos \<noteq> None"
      and c: "r = (item, anc) \<or> length anc < length (snd r)" by auto
    from p assms Some have "fst r \<noteq> item" by auto
    with p c show ?thesis by auto
  qed
  ultimately show ?thesis using Some by auto
qed

theorem unpickable_root_witness:
  "isPickableItem (Some exLabel) (150, 150) = None
   \<and> findQuickItemAt None [] (Some exLabel) (150, 150) True = None
   \<and> isPickableItem (Some exFadedButton) (50, 20) = None
   \<and> findQuickItemAt None [exRoot] (Some exFadedButton) (50, 20) False
       = Some (exLabel, [exFadedButton, exRoot])
   \<and> isPickableItem (Some exLabel) (50, 20) = Some (40, 10)"
proof -
  have a: "isPickableItem (Some exLabel) (150, 150) = None"
    by (simp add: exLabel_def evalPick)
  have b: "isPickableItem (Some exFadedButton) (50, 20) = None"
    by (simp add: exFadedButton_def evalPick)
  have c: "findQuickItemAt None [exRoot] (Some exFadedButton) (50, 20) False
             = Some (exLabel, [exFadedButton, exRoot])"
    by (simp add: exRoot_def exFadedButton_def exLabel_def evalPick)
  have d: "childItems exLabel = []"
    by (simp add: exLabel_def plainItem_def)
  have e: "isPickableItem (Some exLabel) (50, 20) = Some (40, 10)"
    by (simp add: exLabel_def evalPick)
  from unpickable_root [OF a, of None "[]" True] d
  have "findQuickItemAt None [] (Some exLabel) (150, 150) True = None" by simp
  with unpickable_root [OF b, of None "[exRoot]" False] a b c e show ?thesis by simp
qed

subsection \<open>The refinement of the best candidate\<close>

text \<open>
  The loop of \<open>promoteToButtonAncestor\<close> finds the first button-like item of the chain
  that starts with the leaf and goes on with its parents.
\<close>

lemma firstButtonUp_dropWhile:
  "firstButtonUp it anc =
     (case dropWhile (\<lambda>x. \<not> isButtonLike (Some x)) (it # anc) of
        [] \<Rightarrow> None
      | button # parents \<Rightarrow> Some (button, parents))"
  by (induction it anc rule: firstButtonUp.induct) auto

text \<open>
  The loop of \<open>deepestItemUnderPoint\<close> makes a descent and ends where the descent stops;
  the parent chain of the leaf is the path walked, above the chain of the start. There is
  one such descent only.
\<close>

lemma topChildUnder_childAt: "childAt cur (mapFromScene cur scenePos) = topChildUnder cur scenePos"
  by (simp add: childAt_def topChildUnder_def)

lemma topChildUnder_visible: "topChildUnder cur scenePos = Some nxt \<Longrightarrow> isVisible nxt"
  by (auto simp: topChildUnder_def dest: find_Some_in_set)

lemma descend_descent:
  "\<exists>path. isDescent scenePos current path
          \<and> descentStops scenePos (last (current # path))
          \<and> descend current anc scenePos
              = (last (current # path), rev (butlast (current # path)) @ anc)"
proof (induction current anc scenePos rule: descend.induct)
  case (1 current anc scenePos)
  show ?case
  proof (cases "topChildUnder current scenePos")
    case None
    then have "descend current anc scenePos = (current, anc)"
      by (subst descend.simps) (simp add: topChildUnder_childAt)
    with None show ?thesis
      by (intro exI [of _ "[]"]) (simp add: descentStops_def)
  next
    case (Some nxt)
    then have vis: "isVisible nxt" by (rule topChildUnder_visible)
    show ?thesis
    proof (cases "isEnabled nxt \<and> 0 < opacity nxt")
      case False
      with Some vis have "descend current anc scenePos = (current, anc)"
        by (subst descend.simps) (auto simp: topChildUnder_childAt)
      with Some False show ?thesis
        by (intro exI [of _ "[]"]) (simp add: descentStops_def)
    next
      case True
      with vis have go: "\<not> (\<not> isVisible nxt \<or> \<not> isEnabled nxt \<or> opacity nxt \<le> 0)" by auto
      from Some have c: "childAt current (mapFromScene current scenePos) = Some nxt"
        by (simp add: topChildUnder_childAt)
      from "1.IH" [OF refl c go]
      obtain path where p: "isDescent scenePos nxt path"
        and st: "descentStops scenePos (last (nxt # path))"
        and d: "descend nxt (current # anc) scenePos
                  = (last (nxt # path), rev (butlast (nxt # path)) @ current # anc)"
        by blast
      from c go d have "descend current anc scenePos
                          = (last (nxt # path), rev (butlast (nxt # path)) @ current # anc)"
        by (subst descend.simps) simp
      with p st Some True show ?thesis
        by (intro exI [of _ "nxt # path"]) simp
    qed
  qed
qed

lemma descent_unique:
  "isDescent scenePos cur p1 \<Longrightarrow> descentStops scenePos (last (cur # p1))
     \<Longrightarrow> isDescent scenePos cur p2 \<Longrightarrow> descentStops scenePos (last (cur # p2))
     \<Longrightarrow> p1 = p2"
proof (induction p1 arbitrary: cur p2)
  case Nil
  then show ?case by (cases p2) (auto simp: descentStops_def)
next
  case (Cons n p1)
  show ?case
  proof (cases p2)
    case Nil
    with Cons.prems show ?thesis by (auto simp: descentStops_def)
  next
    case (Cons m p2')
    with Cons.prems have nm: "n = m" by simp
    from Cons.prems Cons nm
    have "isDescent scenePos n p1" "descentStops scenePos (last (n # p1))"
      "isDescent scenePos n p2'" "descentStops scenePos (last (n # p2'))"
      by simp_all
    then have "p1 = p2'" by (rule Cons.IH)
    with Cons nm show ?thesis by simp
  qed
qed

text \<open>
  At (50, 50) the best candidate of the first scene is the panel; no item of the scene is
  button-like; the result is the item of scale 0 inside the panel, not the panel. In the
  second scene the best candidate is the frame, and the descent stays at the frame although
  its child is visible, enabled and under the point: the child has opacity 0. In the third
  the best candidate is the shelf, and the descent stays at the shelf although a child that
  is visible, enabled and of opacity 1 is under the point: the child that \<^verbatim>\<open>childAt\<close>
  reports is the disabled one.
\<close>

theorem refinement_of_best_counterexample:
  "chosenBest None [] exScene (50, 50) True = Some (exPanel, [exScene])
   \<and> deepestItemUnderPoint (Some (exPanel, [exScene])) (50, 50) = Some (exCollapsed, [exPanel, exScene])
   \<and> \<not> isButtonLike (Some exCollapsed) \<and> \<not> isButtonLike (Some exPanel) \<and> \<not> isButtonLike (Some exScene)
   \<and> findQuickItemAt None [] (Some exScene) (50, 50) True = Some (exCollapsed, [exPanel, exScene])
   \<and> addr exCollapsed \<noteq> addr exPanel
   \<and> chosenBest None [] exFrameRoot (50, 50) True = Some (exFrame, [exFrameRoot])
   \<and> childItems exFrame = [exGlass] \<and> isVisible exGlass \<and> isEnabled exGlass
   \<and> contains exGlass (mapFromScene exGlass (50, 50))
   \<and> deepestItemUnderPoint (Some (exFrame, [exFrameRoot])) (50, 50) = Some (exFrame, [exFrameRoot])
   \<and> chosenBest None [] exShelfRoot (50, 50) True = Some (exShelf, [exShelfRoot])
   \<and> childItems exShelf = [exCollapsed, exDisabled]
   \<and> isVisible exCollapsed \<and> isEnabled exCollapsed \<and> opacity exCollapsed = 1
   \<and> contains exCollapsed (mapFromScene exCollapsed (50, 50))
   \<and> deepestItemUnderPoint (Some (exShelf, [exShelfRoot])) (50, 50) = Some (exShelf, [exShelfRoot])
   \<and> findQuickItemAt None [] (Some exShelfRoot) (50, 50) True = Some (exShelf, [exShelfRoot])"
proof -
  have a: "chosenBest None [] exScene (50, 50) True = Some (exPanel, [exScene])
     \<and> deepestItemUnderPoint (Some (exPanel, [exScene])) (50, 50) = Some (exCollapsed, [exPanel, exScene])
     \<and> \<not> isButtonLike (Some exCollapsed) \<and> \<not> isButtonLike (Some exPanel) \<and> \<not> isButtonLike (Some exScene)
     \<and> findQuickItemAt None [] (Some exScene) (50, 50) True = Some (exCollapsed, [exPanel, exScene])
     \<and> addr exCollapsed \<noteq> addr exPanel"
    by (simp add: exScene_def exPanel_def exCollapsed_def evalPick)
  have b: "chosenBest None [] exFrameRoot (50, 50) True = Some (exFrame, [exFrameRoot])
     \<and> deepestItemUnderPoint (Some (exFrame, [exFrameRoot])) (50, 50) = Some (exFrame, [exFrameRoot])"
    by (simp add: exFrameRoot_def exFrame_def exGlass_def evalPick)
  have c: "childItems exFrame = [exGlass] \<and> isVisible exGlass \<and> isEnabled exGlass
     \<and> contains exGlass (mapFromScene exGlass (50, 50))"
    by (simp add: exFrame_def exGlass_def plainItem_def)
  have d: "chosenBest None [] exShelfRoot (50, 50) True = Some (exShelf, [exShelfRoot])
     \<and> deepestItemUnderPoint (Some (exShelf, [exShelfRoot])) (50, 50) = Some (exShelf, [exShelfRoot])
     \<and> findQuickItemAt None [] (Some exShelfRoot) (50, 50) True = Some (exShelf, [exShelfRoot])"
    by (simp add: exShelfRoot_def exShelf_def exCollapsed_def exDisabled_def evalPick)
  have e: "childItems exShelf = [exCollapsed, exDisabled]
     \<and> isVisible exCollapsed \<and> isEnabled exCollapsed \<and> opacity exCollapsed = 1
     \<and> contains exCollapsed (mapFromScene exCollapsed (50, 50))"
    by (simp add: exShelf_def exCollapsed_def plainItem_def)
  from a b c d e show ?thesis by simp
qed

text \<open>
  C2, amended: with \<open>preferButtons\<close> set and a best candidate chosen, the result is the
  candidate unchanged when it is not visible, not enabled, of opacity at most 0 or does not
  contain the point. Otherwise the algorithm makes the descent from the candidate, from
  each item to the child that \<^verbatim>\<open>childAt\<close> reports at the point as long as that child is
  enabled and of opacity above 0, to the leaf where the descent stops; then it takes the
  first button-like element of the chain leaf, parent, grandparent and so on, which goes
  on above the candidate. The result is that element when there is one, and the leaf when
  there is none; where this is the candidate's own address, it is the candidate.
\<close>

theorem refinement_of_best:
  assumes "chosenBest env anc item scenePos True = Some b"
  shows "if \<not> isVisible (fst b) \<or> \<not> isEnabled (fst b) \<or> opacity (fst b) \<le> 0
            \<or> \<not> contains (fst b) (mapFromScene (fst b) scenePos)
         then findQuickItemAt env anc (Some item) scenePos True = Some b
         else
           (\<exists>path. isDescent scenePos (fst b) path
              \<and> descentStops scenePos (last (fst b # path))
              \<and> findQuickItemAt env anc (Some item) scenePos True =
                  Some (case dropWhile (\<lambda>x. \<not> isButtonLike (Some x))
                               (last (fst b # path) # rev (butlast (fst b # path)) @ snd b) of
                          button # parents \<Rightarrow>
                            if addr button = addr (fst b) then b else (button, parents)
                        | [] \<Rightarrow>
                            if addr (last (fst b # path)) = addr (fst b) then b
                            else (last (fst b # path), rev (butlast (fst b # path)) @ snd b)))"
proof -
  obtain cand canc where b: "b = (cand, canc)" by (cases b) auto
  have r: "findQuickItemAt env anc (Some item) scenePos True
             = Some (refineBest True scenePos (cand, canc))"
    using assms b by (simp add: findQuickItemAt_Some)
  show ?thesis
  proof (cases "\<not> isVisible cand \<or> \<not> isEnabled cand \<or> opacity cand \<le> 0
                \<or> \<not> contains cand (mapFromScene cand scenePos)")
    case True
    then have "deepestItemUnderPoint (Some (cand, canc)) scenePos = None"
      by (auto simp: deepestItemUnderPoint_def Let_def)
    then have "refineBest True scenePos (cand, canc) = (cand, canc)"
      by (simp add: refineBest_def)
    with True show ?thesis
      unfolding b fst_conv snd_conv by (simp only: r if_True)
  next
    case False
    from descend_descent [of scenePos cand canc]
    obtain path where p: "isDescent scenePos cand path"
      and st: "descentStops scenePos (last (cand # path))"
      and d: "descend cand canc scenePos
                = (last (cand # path), rev (butlast (cand # path)) @ canc)"
      by blast
    let ?l = "last (cand # path)" and ?la = "rev (butlast (cand # path)) @ canc"
    from False d
    have deep: "deepestItemUnderPoint (Some (cand, canc)) scenePos = Some (?l, ?la)"
      by (auto simp: deepestItemUnderPoint_def Let_def)
    have res: "refineBest True scenePos (cand, canc) =
                 (case dropWhile (\<lambda>x. \<not> isButtonLike (Some x)) (?l # ?la) of
                    button # parents \<Rightarrow>
                      if addr button = addr cand then (cand, canc) else (button, parents)
                  | [] \<Rightarrow> if addr ?l = addr cand then (cand, canc) else (?l, ?la))"
    proof (cases "dropWhile (\<lambda>x. \<not> isButtonLike (Some x)) (?l # ?la)")
      case Nil
      then have "firstButtonUp ?l ?la = None"
        by (simp only: firstButtonUp_dropWhile list.case)
      with deep show ?thesis
        by (simp only: Nil list.case) (simp add: refineBest_def promoteToButtonAncestor_def)
    next
      case (Cons button parents)
      then have "firstButtonUp ?l ?la = Some (button, parents)"
        by (simp only: firstButtonUp_dropWhile list.case)
      with deep show ?thesis
        by (simp only: Cons list.case) (simp add: refineBest_def promoteToButtonAncestor_def)
    qed
    have "\<exists>path. isDescent scenePos cand path
              \<and> descentStops scenePos (last (cand # path))
              \<and> findQuickItemAt env anc (Some item) scenePos True =
                  Some (case dropWhile (\<lambda>x. \<not> isButtonLike (Some x))
                               (last (cand # path) # rev (butlast (cand # path)) @ canc) of
                          button # parents \<Rightarrow>
                            if addr button = addr cand then (cand, canc) else (button, parents)
                        | [] \<Rightarrow>
                            if addr (last (cand # path)) = addr cand then (cand, canc)
                            else (last (cand # path), rev (butlast (cand # path)) @ canc))"
    proof (rule exI [of _ path], intro conjI)
      show "isDescent scenePos cand path" by (rule p)
      show "descentStops scenePos (last (cand # path))" by (rule st)
      show "findQuickItemAt env anc (Some item) scenePos True =
              Some (case dropWhile (\<lambda>x. \<not> isButtonLike (Some x))
                           (last (cand # path) # rev (butlast (cand # path)) @ canc) of
                      button # parents \<Rightarrow>
                        if addr button = addr cand then (cand, canc) else (button, parents)
                    | [] \<Rightarrow>
                        if addr (last (cand # path)) = addr cand then (cand, canc)
                        else (last (cand # path), rev (butlast (cand # path)) @ canc))"
        by (simp only: r res)
    qed
    with False show ?thesis
      unfolding b fst_conv snd_conv by (simp only: if_False)
  qed
qed

text \<open>
  Below the button of opacity 0 the best candidate is the label, the descent stays there
  and the first button-like element of the chain is the button. In the scene of the panel
  the descent goes from the panel to the item of scale 0 and stops; nothing is button-like,
  and the result is that item.
\<close>

theorem refinement_of_best_witness:
  "chosenBest None [exRoot] exFadedButton (50, 20) True = Some (exLabel, [exFadedButton, exRoot])
   \<and> isDescent (50, 20) exLabel [] \<and> descentStops (50, 20) exLabel
   \<and> findQuickItemAt None [exRoot] (Some exFadedButton) (50, 20) True = Some (exFadedButton, [exRoot])
   \<and> chosenBest None [] exScene (50, 50) True = Some (exPanel, [exScene])
   \<and> isDescent (50, 50) exPanel [exCollapsed] \<and> descentStops (50, 50) exCollapsed
   \<and> findQuickItemAt None [] (Some exScene) (50, 50) True = Some (exCollapsed, [exPanel, exScene])"
proof -
  have a: "chosenBest None [exRoot] exFadedButton (50, 20) True = Some (exLabel, [exFadedButton, exRoot])"
    by (simp add: exRoot_def exFadedButton_def exLabel_def evalPick)
  have b: "chosenBest None [] exScene (50, 50) True = Some (exPanel, [exScene])"
    by (simp add: exScene_def exPanel_def exCollapsed_def evalPick)
  have c: "isDescent (50, 20) exLabel [] \<and> descentStops (50, 20) exLabel"
    by (simp add: exLabel_def plainItem_def descentStops_def topChildUnder_def)
  have d: "isDescent (50, 50) exPanel [exCollapsed] \<and> descentStops (50, 50) exCollapsed"
    by (simp add: exPanel_def exCollapsed_def plainItem_def descentStops_def topChildUnder_def)
  have e: "findQuickItemAt None [exRoot] (Some exFadedButton) (50, 20) True = Some (exFadedButton, [exRoot])"
    by (simp add: exRoot_def exFadedButton_def exLabel_def evalPick)
  have f: "findQuickItemAt None [] (Some exScene) (50, 50) True = Some (exCollapsed, [exPanel, exScene])"
    by (simp add: exScene_def exPanel_def exCollapsed_def evalPick)
  from refinement_of_best [OF a] refinement_of_best [OF b] a b c d e f
  show ?thesis by simp
qed

subsection \<open>A button-like best and a closer candidate that is not button-like\<close>

text \<open>
  C3, as the code has it: with \<open>preferButtons\<close> set, a candidate that is not button-like
  and has a non-empty rectangle replaces a button-like best as soon as its distance is
  smaller by more than \<open>kDistEps\<close> = 0.75, also when the difference is at most
  \<open>kButtonBoostPx\<close> = 4: the branch that tests the boost assigns \<^verbatim>\<open>false\<close> to a flag that is
  still \<^verbatim>\<open>false\<close>, and the distance test that follows decides.
\<close>

theorem nonbutton_replaces_button:
  assumes "bestItem b = Some bi" and "isButtonLike (Some (fst bi))"
      and "\<not> isButtonLike (Some (fst c))"
      and "\<not> rectf_isEmpty (sceneRect (fst c))"
      and "centerDistance (fst c) scenePos + kDistEps < bestDist b"
  shows "rankStep True largest scenePos b c =
           \<lparr>bestItem = Some c, bestDist = centerDistance (fst c) scenePos,
            bestArea = rectArea (sceneRect (fst c))\<rparr>"
  using assms
  by (simp add: rankStep_def isBetter_def Let_def sceneRect_def centerDistance_def rectArea_def)

text \<open>
  At (50, 22) the button is ranked first, at distance 2; the rectangle, at distance 0, is
  closer by 2 pixels only and replaces it.
\<close>

theorem nonbutton_replaces_button_witness:
  "foundBelow None [] exOverlap (50, 22) True = [(exButtonTop, [exOverlap]), (exPlainBelow, [exOverlap])]
   \<and> rankStep True False (50, 22) (initBest False) (exButtonTop, [exOverlap])
       = \<lparr>bestItem = Some (exButtonTop, [exOverlap]), bestDist = 2, bestArea = 4000\<rparr>
   \<and> isButtonLike (Some exButtonTop) \<and> \<not> isButtonLike (Some exPlainBelow)
   \<and> centerDistance exPlainBelow (50, 22) = 0
   \<and> rankStep True False (50, 22)
         \<lparr>bestItem = Some (exButtonTop, [exOverlap]), bestDist = 2, bestArea = 4000\<rparr>
         (exPlainBelow, [exOverlap])
       = \<lparr>bestItem = Some (exPlainBelow, [exOverlap]), bestDist = 0, bestArea = 4000\<rparr>
   \<and> findQuickItemAt None [] (Some exOverlap) (50, 22) True = Some (exPlainBelow, [exOverlap])"
proof -
  have a: "foundBelow None [] exOverlap (50, 22) True
             = [(exButtonTop, [exOverlap]), (exPlainBelow, [exOverlap])]"
    by (simp add: exOverlap_def exButtonTop_def exPlainBelow_def evalPick)
  have b: "rankStep True False (50, 22) (initBest False) (exButtonTop, [exOverlap])
       = \<lparr>bestItem = Some (exButtonTop, [exOverlap]), bestDist = 2, bestArea = 4000\<rparr>"
    by (simp add: exButtonTop_def evalPick)
  have c: "isButtonLike (Some exButtonTop)" "\<not> isButtonLike (Some exPlainBelow)"
    by (simp_all add: exButtonTop_def exPlainBelow_def evalPick)
  have d: "centerDistance exPlainBelow (50, 22) = 0" "\<not> rectf_isEmpty (sceneRect exPlainBelow)"
    "rectArea (sceneRect exPlainBelow) = 4000"
    by (simp_all add: exPlainBelow_def evalPick centerDistance_def sceneRect_def rectArea_def)
  have e: "findQuickItemAt None [] (Some exOverlap) (50, 22) True = Some (exPlainBelow, [exOverlap])"
    by (simp add: exOverlap_def exButtonTop_def exPlainBelow_def evalPick)
  from nonbutton_replaces_button
         [of "\<lparr>bestItem = Some (exButtonTop, [exOverlap]), bestDist = 2, bestArea = 4000\<rparr>"
             "(exButtonTop, [exOverlap])" "(exPlainBelow, [exOverlap])" "(50, 22)" False]
       a b c d e
  show ?thesis by (simp add: kDistEps_def)
qed

subsection \<open>The area tie-break\<close>

lemma rankStep_nonempty:
  "\<not> rectf_isEmpty (sceneRect (fst c)) \<Longrightarrow>
   rankStep pb largest scenePos b c =
     (if isBetter pb largest b (pb \<and> isButtonLike (Some (fst c)))
           (pb \<and> bestItem b \<noteq> None \<and> isButtonLike (map_option fst (bestItem b)))
           (centerDistance (fst c) scenePos) (rectArea (sceneRect (fst c)))
      then \<lparr>bestItem = Some c, bestDist = centerDistance (fst c) scenePos,
            bestArea = rectArea (sceneRect (fst c))\<rparr>
      else b)"
  by (simp add: rankStep_def Let_def sceneRect_def centerDistance_def rectArea_def)

lemma isBetter_first:
  "bestItem b = None \<Longrightarrow> d + kDistEps < bestDist b \<Longrightarrow> isBetter pb largest b cb bb d ar"
  by (simp add: isBetter_def Let_def)

lemma isBetter_tie:
  "bestItem b \<noteq> None \<Longrightarrow> bestDist b = d \<Longrightarrow>
   isBetter pb largest b (pb \<and> x) (pb \<and> y) d ar =
     ((pb \<and> x \<and> \<not> y)
      \<or> (if largest then ar > bestArea b + kAreaEps else ar + kAreaEps < bestArea b))"
  by (auto simp: isBetter_def Let_def kDistEps_def kButtonBoostPx_def)

lemma rank_first:
  assumes "\<not> rectf_isEmpty (sceneRect (fst c))"
      and "centerDistance (fst c) scenePos + kDistEps < DBL_MAX"
  shows "rankStep pb largest scenePos (initBest largest) c =
           \<lparr>bestItem = Some c, bestDist = centerDistance (fst c) scenePos,
            bestArea = rectArea (sceneRect (fst c))\<rparr>"
  using assms by (simp add: rankStep_nonempty isBetter_first initBest_def)

lemma rank_second:
  assumes "\<not> rectf_isEmpty (sceneRect (fst c))"
      and "centerDistance (fst c) scenePos = d"
  shows "rankStep pb largest scenePos \<lparr>bestItem = Some x, bestDist = d, bestArea = ar\<rparr> c =
           (if (pb \<and> isButtonLike (Some (fst c)) \<and> \<not> isButtonLike (Some (fst x)))
               \<or> (if largest then rectArea (sceneRect (fst c)) > ar + kAreaEps
                   else rectArea (sceneRect (fst c)) + kAreaEps < ar)
            then \<lparr>bestItem = Some c, bestDist = d, bestArea = rectArea (sceneRect (fst c))\<rparr>
            else \<lparr>bestItem = Some x, bestDist = d, bestArea = ar\<rparr>)"
proof -
  have "isBetter pb largest \<lparr>bestItem = Some x, bestDist = d, bestArea = ar\<rparr>
          (pb \<and> isButtonLike (Some (fst c))) (pb \<and> isButtonLike (Some (fst x)))
          d (rectArea (sceneRect (fst c)))
        = ((pb \<and> isButtonLike (Some (fst c)) \<and> \<not> isButtonLike (Some (fst x)))
           \<or> (if largest then rectArea (sceneRect (fst c)) > ar + kAreaEps
               else rectArea (sceneRect (fst c)) + kAreaEps < ar))"
    using isBetter_tie [of "\<lparr>bestItem = Some x, bestDist = d, bestArea = ar\<rparr>" d pb largest]
    by simp
  with assms show ?thesis
    by (simp add: rankStep_nonempty)
qed

lemma rank_pair:
  assumes ne: "\<not> rectf_isEmpty (sceneRect (fst A))" "\<not> rectf_isEmpty (sceneRect (fst B))"
      and ce: "rectf_center (sceneRect (fst A)) = rectf_center (sceneRect (fst B))"
      and fin: "centerDistance (fst A) scenePos + kDistEps < DBL_MAX"
      and ar: "rectArea (sceneRect (fst A)) + kAreaEps < rectArea (sceneRect (fst B))"
      and btn: "pb \<Longrightarrow> isButtonLike (Some (fst (if largest then A else B)))
                  \<Longrightarrow> isButtonLike (Some (fst (if largest then B else A)))"
      and found: "found = [A, B] \<or> found = [B, A]"
  shows "bestItem (rankCandidates pb largest scenePos found) = Some (if largest then B else A)"
proof -
  from ce have d: "centerDistance (fst B) scenePos = centerDistance (fst A) scenePos"
    by (simp add: centerDistance_def)
  have k: "0 < kAreaEps" by (simp add: kAreaEps_def)
  from found show ?thesis
  proof
    assume "found = [A, B]"
    then show ?thesis
      using ne fin ar d k btn
      by (cases largest) (auto simp: rankCandidates_def rank_first rank_second)
  next
    assume "found = [B, A]"
    then show ?thesis
      using ne fin ar d k btn
      by (cases largest) (auto simp: rankCandidates_def rank_first rank_second)
  qed
qed

lemma descend_childless: "childItems it = [] \<Longrightarrow> descend it anc scenePos = (it, anc)"
  by (subst descend.simps) (simp add: childAt_def)

lemma refineBest_childless:
  assumes "childItems (fst X) = []"
      and "isButtonLike (Some (fst X)) \<or> list_all (\<lambda>x. \<not> isButtonLike (Some x)) (snd X)"
  shows "refineBest pb scenePos X = X"
proof -
  obtain it anc where X: "X = (it, anc)" by (cases X) auto
  from assms(2) X
  have "firstButtonUp it anc = Some (it, anc) \<or> firstButtonUp it anc = None"
    by (cases "isButtonLike (Some it)")
       (auto simp: firstButtonUp_dropWhile list_all_iff dropWhile_eq_Nil_conv [THEN iffD2])
  with assms(1) X show ?thesis
    by (auto simp: refineBest_def deepestItemUnderPoint_def descend_childless
          promoteToButtonAncestor_def Let_def)
qed

text \<open>
  C4, amended: for two candidates that are the only ones collected for an item, whose
  scene rectangles are not empty, have the same center (so the same distance, which plus
  0.75 is below the largest double) and areas that differ by more than \<open>kAreaEps\<close> = 1,
  and of which, with \<open>preferButtons\<close> set, the one that the area rule does not prefer is
  button-like only if the preferred one is: the ranking selects the candidate of smaller
  area, and the one of larger area when \<^verbatim>\<open>FUNQ_MODE_PICK_LARGEST\<close> is \<^verbatim>\<open>1\<close>, whatever the order
  of the two. \<open>findQuickItemAt\<close> returns the refinement of the selected candidate, which
  is the candidate itself when \<open>preferButtons\<close> is off, and when the candidate has no
  children and is button-like or has no button-like ancestor.
\<close>

theorem area_tie_break:
  assumes found: "foundBelow env anc item scenePos preferButtons = [A, B]
                  \<or> foundBelow env anc item scenePos preferButtons = [B, A]"
      and ne: "\<not> rectf_isEmpty (sceneRect (fst A))" "\<not> rectf_isEmpty (sceneRect (fst B))"
      and ce: "rectf_center (sceneRect (fst A)) = rectf_center (sceneRect (fst B))"
      and fin: "centerDistance (fst A) scenePos + kDistEps < DBL_MAX"
      and ar: "rectArea (sceneRect (fst A)) + kAreaEps < rectArea (sceneRect (fst B))"
      and btn: "preferButtons \<Longrightarrow> isButtonLike (Some (fst (if preferLargestAreaOf env then A else B)))
                  \<Longrightarrow> isButtonLike (Some (fst (if preferLargestAreaOf env then B else A)))"
  shows "chosenBest env anc item scenePos preferButtons
           = Some (if preferLargestAreaOf env then B else A)
         \<and> findQuickItemAt env anc (Some item) scenePos preferButtons
             = Some (refineBest preferButtons scenePos (if preferLargestAreaOf env then B else A))
         \<and> (\<not> preferButtons
              \<or> (childItems (fst (if preferLargestAreaOf env then B else A)) = []
                  \<and> (isButtonLike (Some (fst (if preferLargestAreaOf env then B else A)))
                      \<or> list_all (\<lambda>x. \<not> isButtonLike (Some x))
                           (snd (if preferLargestAreaOf env then B else A))))
              \<longrightarrow> findQuickItemAt env anc (Some item) scenePos preferButtons
                    = Some (if preferLargestAreaOf env then B else A))"
proof -
  let ?X = "if preferLargestAreaOf env then B else A"
  from rank_pair [OF ne ce fin ar btn found]
  have c: "chosenBest env anc item scenePos preferButtons = Some ?X"
    by (simp add: chosenBest_def)
  then have f: "findQuickItemAt env anc (Some item) scenePos preferButtons
                  = Some (refineBest preferButtons scenePos ?X)"
    by (simp add: findQuickItemAt_Some)
  have "refineBest preferButtons scenePos ?X = ?X" if "\<not> preferButtons"
    using that by (simp add: refineBest_def)
  moreover have "refineBest preferButtons scenePos ?X = ?X"
    if "childItems (fst ?X) = []"
      and "isButtonLike (Some (fst ?X)) \<or> list_all (\<lambda>x. \<not> isButtonLike (Some x)) (snd ?X)"
    using that by (rule refineBest_childless)
  ultimately show ?thesis using c f by auto
qed

lemmas evalRect = sceneRect_def rectArea_def centerDistance_def

text \<open>
  In the default mode: of two children with center (5, 5) and areas 100 and 100.5 the
  larger is returned; with \<open>preferButtons\<close> set, of a rectangle of area 100 and a button
  of area 400 with the same center the button is returned; and with a third child whose
  center is the point (5, 8), neither of the two with center (5, 5) is returned.
\<close>

theorem area_tie_break_counterexample:
  "rectf_center (sceneRect exSmall) = (5, 5) \<and> rectf_center (sceneRect exLarger) = (5, 5)
   \<and> rectArea (sceneRect exSmall) = 100 \<and> rectArea (sceneRect exLarger) = 100.5
   \<and> preferLargestAreaOf None = False
   \<and> findQuickItemAt None [] (Some exPairClose) (5, 5) False = Some (exLarger, [exPairClose])
   \<and> rectf_center (sceneRect exSmallTop) = (5, 5) \<and> rectf_center (sceneRect exBigButton) = (5, 5)
   \<and> rectArea (sceneRect exSmallTop) = 100 \<and> rectArea (sceneRect exBigButton) = 400
   \<and> findQuickItemAt None [] (Some exPairButton) (5, 5) True = Some (exBigButton, [exPairButton])
   \<and> rectf_center (sceneRect exBig) = (5, 5) \<and> rectArea (sceneRect exBig) = 400
   \<and> findQuickItemAt None [] (Some exTriple) (5, 8) False = Some (exNear, [exTriple])"
proof -
  have a: "findQuickItemAt None [] (Some exPairClose) (5, 5) False = Some (exLarger, [exPairClose])"
    by (simp add: exPairClose_def exSmall_def exLarger_def evalPick)
  have b: "findQuickItemAt None [] (Some exPairButton) (5, 5) True = Some (exBigButton, [exPairButton])"
    by (simp add: exPairButton_def exSmallTop_def exBigButton_def evalPick)
  have c: "rectf_center (sceneRect exSmall) = (5, 5)" "rectf_center (sceneRect exLarger) = (5, 5)"
    "rectArea (sceneRect exSmall) = 100" "rectArea (sceneRect exLarger) = 100.5"
    "rectf_center (sceneRect exSmallTop) = (5, 5)" "rectf_center (sceneRect exBigButton) = (5, 5)"
    "rectArea (sceneRect exSmallTop) = 100" "rectArea (sceneRect exBigButton) = 400"
    "rectf_center (sceneRect exBig) = (5, 5)" "rectArea (sceneRect exBig) = 400"
    by (simp_all add: exSmall_def exLarger_def exSmallTop_def exBigButton_def exBig_def plainItem_def
          evalRect rectf_center_def)
  have d: "findQuickItemAt None [] (Some exTriple) (5, 8) False = Some (exNear, [exTriple])"
    by (simp add: exTriple_def exSmall_def exBig_def exNear_def evalPick)
  from a b c d show ?thesis by (simp add: preferLargestAreaOf_def)
qed

text \<open>
  The children of areas 100 and 400: the smaller is returned by default and when the
  variable is \<^verbatim>\<open>0\<close>, the larger when it is \<^verbatim>\<open>1\<close>; the same with \<open>preferButtons\<close> set, where
  nothing is button-like, and with a third child of opacity 0 on top.
\<close>

theorem area_tie_break_witness:
  "findQuickItemAt None [] (Some exPairApart) (5, 5) False = Some (exSmall, [exPairApart])
   \<and> findQuickItemAt (Some ''0'') [] (Some exPairApart) (5, 5) False = Some (exSmall, [exPairApart])
   \<and> findQuickItemAt (Some ''1'') [] (Some exPairApart) (5, 5) False = Some (exBig, [exPairApart])
   \<and> findQuickItemAt None [] (Some exPairApart) (5, 5) True = Some (exSmall, [exPairApart])
   \<and> findQuickItemAt (Some ''1'') [] (Some exPairAndFaded) (5, 5) False
       = Some (exBig, [exPairAndFaded])
   \<and> rectArea (sceneRect exSmall) = 100 \<and> rectArea (sceneRect exBig) = 400"
proof -
  let ?A = "(exSmall, [exPairApart])" and ?B = "(exBig, [exPairApart])"
  let ?A' = "(exSmall, [exPairAndFaded])" and ?B' = "(exBig, [exPairAndFaded])"
  have found: "\<And>env pb. foundBelow env [] exPairApart (5, 5) pb = [?A, ?B]
                 \<or> foundBelow env [] exPairApart (5, 5) pb = [?B, ?A]"
    by (simp add: exPairApart_def exSmall_def exBig_def evalPick)
  have found': "\<And>env pb. foundBelow env [] exPairAndFaded (5, 5) pb = [?A', ?B']
                 \<or> foundBelow env [] exPairAndFaded (5, 5) pb = [?B', ?A']"
    by (simp add: exPairAndFaded_def exSmall_def exBig_def exFaded_def evalPick)
  have ne: "\<not> rectf_isEmpty (sceneRect exSmall)" "\<not> rectf_isEmpty (sceneRect exBig)"
    by (simp_all add: exSmall_def exBig_def plainItem_def evalRect rectf_isEmpty_def)
  have ce: "rectf_center (sceneRect exSmall) = rectf_center (sceneRect exBig)"
    by (simp add: exSmall_def exBig_def plainItem_def evalRect rectf_center_def)
  have fin: "centerDistance exSmall (5, 5) + kDistEps < DBL_MAX"
    by (simp add: exSmall_def plainItem_def evalRect rectf_center_def lineLength_def
          kDistEps_def DBL_MAX_def)
  have ar: "rectArea (sceneRect exSmall) + kAreaEps < rectArea (sceneRect exBig)"
    by (simp add: exSmall_def exBig_def plainItem_def evalRect kAreaEps_def)
  have nb: "\<not> isButtonLike (Some exSmall)" "\<not> isButtonLike (Some exBig)"
    "\<not> isButtonLike (Some exPairApart)"
    by (simp_all add: exSmall_def exBig_def exPairApart_def evalPick)
  have leaves: "childItems exSmall = []" "childItems exBig = []"
    by (simp_all add: exSmall_def exBig_def plainItem_def)
  have v: "rectArea (sceneRect exSmall) = 100" "rectArea (sceneRect exBig) = 400"
    by (simp_all add: exSmall_def exBig_def plainItem_def evalRect)
  have r: "\<And>X. refineBest False (5, 5) X = X" "refineBest True (5, 5) ?A = ?A"
    using refineBest_childless [of ?A True "(5, 5)"] leaves nb
    by (simp_all add: refineBest_def)
  from area_tie_break [where A = ?A and B = ?B and env = None and preferButtons = False,
         OF found] ne ce fin ar
       area_tie_break [where A = ?A and B = ?B and env = "Some ''0''" and preferButtons = False,
         OF found]
       area_tie_break [where A = ?A and B = ?B and env = "Some ''1''" and preferButtons = False,
         OF found]
       area_tie_break [where A = ?A and B = ?B and env = None and preferButtons = True,
         OF found]
       area_tie_break [where A = ?A' and B = ?B' and env = "Some ''1''" and preferButtons = False,
         OF found']
       nb leaves v r
  show ?thesis by (simp add: preferLargestAreaOf_def)
qed

section \<open>The rectangle reported for a scene-graph item\<close>

lemma rect_width_QRect: "rect_width (QRect topLeft sz) = size_width sz"
  by (simp add: rect_width_def QRect_def)

lemma rect_height_QRect: "rect_height (QRect topLeft sz) = size_height sz"
  by (simp add: rect_height_def QRect_def)

lemma qMax_max: "qMax a b = max a b"
  by (simp add: qMax_def max_def)

text \<open>Within the range of \<^verbatim>\<open>int\<close>, \<open>qRound\<close> of a size rounds half up.\<close>

lemma qRound_nonneg:
  assumes "0 \<le> d" and "d + 1 / 2 < 2147483648"
  shows "qRound d = \<lfloor>d + 1 / 2\<rfloor>"
proof -
  from assms have "0 \<le> \<lfloor>d + 1 / 2\<rfloor>" and "\<lfloor>d + 1 / 2\<rfloor> < 2147483648"
    by (simp_all add: floor_less_iff)
  with assms(1) show ?thesis
    by (simp add: qRound_def truncInt_def INT_MIN_def INT_MAX_def Let_def)
qed

lemma windowLoop_quickItem:
  "windowLoop a globalPos buttonsOnly outRect localPos windows = (ok, rect, Some (QuickItem n), pos)
     \<Longrightarrow> \<exists>win \<in> set windows. \<exists>content quickItem.
           window_quick win = Some (Some content)
           \<and> findQuickItemAt (FUNQ_MODE_PICK_LARGEST a) [] (Some content)
                 (scenePosIn win globalPos) buttonsOnly = Some quickItem
           \<and> addr (fst quickItem) \<noteq> addr content
           \<and> (ok, rect, Some (QuickItem n), pos)
                 = quickItemCandidate win quickItem (scenePosIn win globalPos)"
proof (induction windows)
  case Nil
  then show ?case by simp
next
  case (Cons win windows)
  show ?case
  proof (cases "windowLoop a globalPos buttonsOnly outRect localPos (win # windows)
                  = windowLoop a globalPos buttonsOnly outRect localPos windows")
    case True
    with Cons show ?thesis by auto
  next
    case False
    with Cons.prems show ?thesis
      by (auto simp: Let_def scenePosIn_def split: if_splits option.splits)
  qed
qed

text \<open>
  C10: whenever \<open>computeHighlightTarget\<close> reports a scene-graph item, it is an item that the
  picker returned for the content item of a Qt Quick window and that is not the content
  item itself, and the rectangle reported has the rounded width and the rounded height
  of that item (\<open>qRound\<close>, which for a size within the range of \<^verbatim>\<open>int\<close> rounds half up),
  each raised to 1 where it is smaller; so both are at least 1.
\<close>

theorem quick_item_rect_size:
  assumes "computeHighlightTarget a s globalPos outRect target localPos buttonsOnly
             = (ok, rect, Some (QuickItem n), pos)"
  shows "\<exists>win \<in> set (topLevelWindows a). \<exists>content quickItem.
           window_quick win = Some (Some content)
           \<and> findQuickItemAt (FUNQ_MODE_PICK_LARGEST a) [] (Some content)
                 (scenePosIn win globalPos) buttonsOnly = Some quickItem
           \<and> addr (fst quickItem) \<noteq> addr content
           \<and> n = addr (fst quickItem)
           \<and> rect_width rect = max 1 (qRound (width (fst quickItem)))
           \<and> rect_height rect = max 1 (qRound (height (fst quickItem)))
           \<and> (0 \<le> width (fst quickItem) \<and> width (fst quickItem) + 1 / 2 < 2147483648
                \<longrightarrow> rect_width rect = max 1 \<lfloor>width (fst quickItem) + 1 / 2\<rfloor>)
           \<and> (0 \<le> height (fst quickItem) \<and> height (fst quickItem) + 1 / 2 < 2147483648
                \<longrightarrow> rect_height rect = max 1 \<lfloor>height (fst quickItem) + 1 / 2\<rfloor>)
           \<and> 1 \<le> rect_width rect \<and> 1 \<le> rect_height rect"
proof -
  from assms
  have "windowLoop a globalPos buttonsOnly outRect localPos (topLevelWindows a)
          = (ok, rect, Some (QuickItem n), pos)"
    by (auto simp: computeHighlightTarget_def Let_def split: if_splits option.splits)
  from windowLoop_quickItem [OF this]
  obtain win content quickItem
    where w: "win \<in> set (topLevelWindows a)"
      and c: "window_quick win = Some (Some content)"
      and f: "findQuickItemAt (FUNQ_MODE_PICK_LARGEST a) [] (Some content)
                (scenePosIn win globalPos) buttonsOnly = Some quickItem"
      and d: "addr (fst quickItem) \<noteq> addr content"
      and q: "(ok, rect, Some (QuickItem n), pos)
                = quickItemCandidate win quickItem (scenePosIn win globalPos)"
    by blast
  from q have "n = addr (fst quickItem)"
    and "rect_width rect = max 1 (qRound (width (fst quickItem)))"
    and "rect_height rect = max 1 (qRound (height (fst quickItem)))"
    by (auto simp: quickItemCandidate_def Let_def rect_width_QRect rect_height_QRect qMax_max)
  with w c f d show ?thesis
    by (intro bexI [of _ win] exI [of _ content] exI [of _ quickItem])
       (simp_all add: qRound_nonneg)
qed

text \<open>
  The item of 0.3 by 0.4 pixels is reported with a rectangle of 1 by 1 pixel, the item
  of 100.4 by 40.6 pixels with one of 100 by 41 pixels. A width of 3000000000 is outside
  the range of \<^verbatim>\<open>int\<close> and is reported as 1.
\<close>

lemmas evalResolve = computeHighlightTarget_def exQuickApp_def exQuickWindow_def exPick_def
  newPick_def exWidgetApp_def
  quickItemCandidate_def qRound_def truncInt_def INT_MIN_def INT_MAX_def wrapInt_def qMax_def
  rect_contains_def QRect_def rect_topLeft_def rect_size_def rect_width_def rect_height_def

theorem quick_item_rect_size_witness:
  "width exTiny = 0.3 \<and> height exTiny = 0.4
   \<and> computeHighlightTarget exQuickApp exPick (110, 110) (QRectCorners 0 0 (- 1) (- 1)) None (0, 0) False
       = (True, QRect (110, 110) (QSize 1 1), Some (QuickItem 8), (0, 0))
   \<and> width exWide = 100.4 \<and> height exWide = 40.6
   \<and> computeHighlightTarget exQuickApp exPick (200, 170) (QRectCorners 0 0 (- 1) (- 1)) None (0, 0) False
       = (True, QRect (150, 150) (QSize 100 41), Some (QuickItem 9), (50, 20))
   \<and> rect_width (QRect (150, 150) (QSize 100 41)) = 100
   \<and> rect_height (QRect (150, 150) (QSize 100 41)) = 41
   \<and> qMax 1 (qRound 3000000000) = 1"
proof -
  have a: "computeHighlightTarget exQuickApp exPick (110, 110) (QRectCorners 0 0 (- 1) (- 1)) None (0, 0) False
       = (True, QRect (110, 110) (QSize 1 1), Some (QuickItem 8), (0, 0))"
    by (simp add: evalResolve) (simp add: exContent_def exTiny_def exWide_def evalPick evalResolve)
  have b: "computeHighlightTarget exQuickApp exPick (200, 170) (QRectCorners 0 0 (- 1) (- 1)) None (0, 0) False
       = (True, QRect (150, 150) (QSize 100 41), Some (QuickItem 9), (50, 20))"
    by (simp add: evalResolve) (simp add: exContent_def exTiny_def exWide_def evalPick evalResolve)
  have c: "qMax 1 (qRound 3000000000) = 1"
    by (simp add: evalResolve)
  from quick_item_rect_size [OF a] quick_item_rect_size [OF b] a b c show ?thesis
    by (simp add: exTiny_def exWide_def plainItem_def rect_width_QRect rect_height_QRect)
qed

end
